theory Spec2Isabelle
  imports Complex_Main "HOL-Library.Sublist"
begin

section \<open>Constants of the AWS App Runner deployer\<close>

text \<open>
  The module-level constants of \<^verbatim>\<open>aws_deployer.py\<close>: the defaults used when the
  pipeline's resource settings leave a value out, and the platform limits.
\<close>

definition DEFAULT_CPU :: string where
  "DEFAULT_CPU = ''0.25 vCPU''"

definition DEFAULT_MEMORY :: string where
  "DEFAULT_MEMORY = ''0.5 GB''"

definition DEFAULT_MIN_SIZE :: int where
  "DEFAULT_MIN_SIZE = 1"

definition DEFAULT_MAX_SIZE :: int where
  "DEFAULT_MAX_SIZE = 25"

definition DEFAULT_MAX_CONCURRENCY :: int where
  "DEFAULT_MAX_CONCURRENCY = 100"

definition AWS_APP_RUNNER_MAX_SIZE :: int where
  "AWS_APP_RUNNER_MAX_SIZE = 1000"

definition AWS_APP_RUNNER_MAX_CONCURRENCY :: int where
  "AWS_APP_RUNNER_MAX_CONCURRENCY = 1000"

section \<open>Scaling settings\<close>

text \<open>
  The fields of \<^verbatim>\<open>ResourceSettings\<close> that the deployer reads. Each is optional in
  the source (\<^verbatim>\<open>None\<close> when the pipeline does not set it); Python integers are
  unbounded, hence \<^typ>\<open>int\<close>. The CPU count and the memory (already converted to GB) are
  floats in the source and are idealised as exact rationals.
\<close>

record resource_settings =
  cpu_count :: "rat option"
  memory_gb :: "rat option"
  min_replicas :: "int option"
  max_replicas :: "int option"
  max_concurrency :: "int option"

text \<open>
  \<^verbatim>\<open>_convert_scaling_settings_to_aws_format\<close>: three independent assignments, each
  starting from its default and overwritten when the setting is present.
\<close>

definition convert_scaling_settings_to_aws_format ::
    "resource_settings \<Rightarrow> int \<times> int \<times> int" where
  "convert_scaling_settings_to_aws_format rs =
     (let min_size = (case min_replicas rs of
                        None \<Rightarrow> DEFAULT_MIN_SIZE
                      | Some m \<Rightarrow> max 1 m);
          max_size = (case max_replicas rs of
                        None \<Rightarrow> DEFAULT_MAX_SIZE
                      | Some m \<Rightarrow> if m = 0 then AWS_APP_RUNNER_MAX_SIZE
                                  else min m AWS_APP_RUNNER_MAX_SIZE);
          max_conc = (case max_concurrency rs of
                        None \<Rightarrow> DEFAULT_MAX_CONCURRENCY
                      | Some c \<Rightarrow> min c AWS_APP_RUNNER_MAX_CONCURRENCY)
      in (min_size, max_size, max_conc))"

section \<open>Tier selection\<close>

text \<open>
  \<^verbatim>\<open>_select_aws_cpu_memory_combination\<close>. The table of supported combinations is
  the local list \<^verbatim>\<open>valid_combinations\<close>, in the source's order; each entry is
  \<^verbatim>\<open>(cpu_value, cpu_string, memory_value, memory_string)\<close>. All table values are
  exactly representable, and the requests are idealised as rationals, so comparisons and
  the waste score are computed exactly.
\<close>

type_synonym combination = "rat \<times> string \<times> rat \<times> string"

definition valid_combinations :: "combination list" where
  "valid_combinations =
     [(1/4, ''0.25 vCPU'', 1/2, ''0.5 GB''),
      (1/4, ''0.25 vCPU'', 1, ''1 GB''),
      (1/2, ''0.5 vCPU'', 1, ''1 GB''),
      (1, ''1 vCPU'', 2, ''2 GB''),
      (1, ''1 vCPU'', 3, ''3 GB''),
      (1, ''1 vCPU'', 4, ''4 GB''),
      (2, ''2 vCPU'', 4, ''4 GB''),
      (2, ''2 vCPU'', 6, ''6 GB''),
      (4, ''4 vCPU'', 8, ''8 GB''),
      (4, ''4 vCPU'', 10, ''10 GB''),
      (4, ''4 vCPU'', 12, ''12 GB'')]"

text \<open>The two requirement checks and the waste score of the loop body.\<close>

fun cpu_ok :: "rat option \<Rightarrow> combination \<Rightarrow> bool" where
  "cpu_ok requested_cpu (cpu_val, cpu_str, mem_val, mem_str) =
     (case requested_cpu of None \<Rightarrow> True | Some c \<Rightarrow> cpu_val \<ge> c)"

fun mem_ok :: "rat option \<Rightarrow> combination \<Rightarrow> bool" where
  "mem_ok requested_memory_gb (cpu_val, cpu_str, mem_val, mem_str) =
     (case requested_memory_gb of None \<Rightarrow> True | Some m \<Rightarrow> mem_val \<ge> m)"

fun score :: "rat option \<Rightarrow> rat option \<Rightarrow> combination \<Rightarrow> rat" where
  "score requested_cpu requested_memory_gb (cpu_val, cpu_str, mem_val, mem_str) =
     (let cpu_waste = (case requested_cpu of None \<Rightarrow> 0 | Some c \<Rightarrow> cpu_val - c);
          mem_waste = (case requested_memory_gb of None \<Rightarrow> 0 | Some m \<Rightarrow> mem_val - m)
      in cpu_waste * 10 + mem_waste)"

fun labels :: "combination \<Rightarrow> string \<times> string" where
  "labels (cpu_val, cpu_str, mem_val, mem_str) = (cpu_str, mem_str)"

text \<open>
  \<^verbatim>\<open>best_score\<close> starts at \<^verbatim>\<open>float("inf")\<close>, written \<open>None\<close> here:
  every score is below it.
\<close>

fun below :: "rat \<Rightarrow> rat option \<Rightarrow> bool" where
  "below s None = True"
| "below s (Some b) = (s < b)"

text \<open>
  The \<^verbatim>\<open>for\<close> loop over the table, carrying \<^verbatim>\<open>best_combination\<close> and
  \<^verbatim>\<open>best_score\<close>; the comparison is strict, so a later entry with an equal score
  does not replace an earlier one.
\<close>

fun select_loop ::
    "rat option \<Rightarrow> rat option \<Rightarrow> combination list \<Rightarrow>
     (string \<times> string) option \<Rightarrow> rat option \<Rightarrow> (string \<times> string) option" where
  "select_loop rc rm [] best_combination best_score = best_combination"
| "select_loop rc rm (t # rest) best_combination best_score =
     (if cpu_ok rc t \<and> mem_ok rm t then
        (if below (score rc rm t) best_score
         then select_loop rc rm rest (Some (labels t)) (Some (score rc rm t))
         else select_loop rc rm rest best_combination best_score)
      else select_loop rc rm rest best_combination best_score)"

definition select_aws_cpu_memory_combination ::
    "rat option \<Rightarrow> rat option \<Rightarrow> string \<times> string" where
  "select_aws_cpu_memory_combination requested_cpu requested_memory_gb =
     (if requested_cpu = None \<and> requested_memory_gb = None
      then (DEFAULT_CPU, DEFAULT_MEMORY)
      else (case select_loop requested_cpu requested_memory_gb valid_combinations None None of
              None \<Rightarrow> (''4 vCPU'', ''12 GB'')
            | Some best_combination \<Rightarrow> best_combination))"

text \<open>
  \<^verbatim>\<open>_convert_resource_settings_to_aws_format\<close> reads the two requests from the
  resource settings and delegates.
\<close>

definition convert_resource_settings_to_aws_format ::
    "resource_settings \<Rightarrow> string \<times> string" where
  "convert_resource_settings_to_aws_format rs =
     select_aws_cpu_memory_combination (cpu_count rs) (memory_gb rs)"

section \<open>Errors\<close>

text \<open>
  The exceptions the deployer raises or lets through. \<open>ClientError\<close> carries the error
  code of the remote response (\<^verbatim>\<open>e.response["Error"]["Code"]\<close>); \<open>BotoCoreError\<close>
  stands for the client library's transport-level failures; \<open>StopIteration\<close> ends
  the iteration of a generator, \<open>AssertionError\<close> is a failed \<^verbatim>\<open>assert\<close> and
  \<open>KeyError\<close> the subscription of a dictionary with a missing key.
\<close>

datatype error =
    RuntimeError
  | ValueError
  | NotImplementedError
  | DeployerError
  | PipelineEndpointNotFoundError
  | PipelineEndpointDeprovisionError
  | PipelineEndpointDeploymentError
  | PipelineLogsNotFoundError
  | ClientError string
  | BotoCoreError
  | StopIteration
  | AssertionError
  | KeyError

section \<open>Secret names\<close>

text \<open>
  A regular-expression range \<^verbatim>\<open>lo-hi\<close> inside a character class matches the
  characters whose code lies between the codes of its two ends.
\<close>

definition in_range :: "char \<Rightarrow> char \<Rightarrow> char \<Rightarrow> bool" where
  "in_range lo hi c = ((of_char lo :: nat) \<le> of_char c \<and> (of_char c :: nat) \<le> of_char hi)"

text \<open>
  The class \<^verbatim>\<open>[a-zA-Z0-9_-]\<close> of the suffix check: three ranges, the underscore
  and, in last position, a literal hyphen.
\<close>

definition suffix_char :: "char \<Rightarrow> bool" where
  "suffix_char c = (in_range CHR ''a'' CHR ''z'' c \<or> in_range CHR ''A'' CHR ''Z'' c
                    \<or> in_range CHR ''0'' CHR ''9'' c \<or> c = CHR ''_'' \<or> c = CHR ''-'')"

text \<open>
  \<^verbatim>\<open>re.match(r"^[a-zA-Z0-9_-]+$", random_suffix)\<close>: one or more class characters up
  to the end of the string, where \<^verbatim>\<open>$\<close> also matches just before a final newline.
\<close>

definition suffix_valid :: "string \<Rightarrow> bool" where
  "suffix_valid s =
     ((s \<noteq> [] \<and> list_all suffix_char s)
      \<or> (s \<noteq> [] \<and> last s = CHR 0x0A \<and> butlast s \<noteq> [] \<and> list_all suffix_char (butlast s)))"

text \<open>
  The characters the substitution \<^verbatim>\<open>re.sub(r"[^a-zA-Z0-9_.-/]", "_", name)\<close> leaves
  alone. Inside the class, \<^verbatim>\<open>.-/\<close> stands between two characters and is therefore a
  range, from the full stop to the slash.
\<close>

definition secret_keep :: "char \<Rightarrow> bool" where
  "secret_keep c = (in_range CHR ''a'' CHR ''z'' c \<or> in_range CHR ''A'' CHR ''Z'' c
                    \<or> in_range CHR ''0'' CHR ''9'' c \<or> c = CHR ''_''
                    \<or> in_range CHR ''.'' CHR ''/'' c)"

definition replace_disallowed :: "string \<Rightarrow> string" where
  "replace_disallowed name = map (\<lambda>c. if secret_keep c then c else CHR ''_'') name"

text \<open>\<^verbatim>\<open>re.sub(r"/+", "/", sanitized)\<close>: every run of slashes becomes one slash.\<close>

fun collapse_slashes :: "string \<Rightarrow> string" where
  "collapse_slashes (c # d # cs) =
     (if c = CHR ''/'' \<and> d = CHR ''/'' then collapse_slashes (d # cs)
      else c # collapse_slashes (d # cs))"
| "collapse_slashes cs = cs"

text \<open>\<^verbatim>\<open>str.lstrip\<close>, \<^verbatim>\<open>str.rstrip\<close> and \<^verbatim>\<open>str.strip\<close> for one character.\<close>

definition lstrip :: "char \<Rightarrow> string \<Rightarrow> string" where
  "lstrip ch s = dropWhile (\<lambda>c. c = ch) s"

definition rstrip :: "char \<Rightarrow> string \<Rightarrow> string" where
  "rstrip ch s = rev (dropWhile (\<lambda>c. c = ch) (rev s))"

definition strip :: "char \<Rightarrow> string \<Rightarrow> string" where
  "strip ch s = rstrip ch (lstrip ch s)"

text \<open>
  The slice \<^verbatim>\<open>xs[:n]\<close>: the first \<open>n\<close> elements, or, for a negative \<open>n\<close>, all
  but the last \<open>-n\<close>.
\<close>

definition slice_to :: "'a list \<Rightarrow> int \<Rightarrow> 'a list" where
  "slice_to xs n = (if 0 \<le> n then take (nat n) xs else take (nat (int (length xs) + n)) xs)"

text \<open>\<^verbatim>\<open>_sanitize_secret_name\<close>.\<close>

definition sanitize_secret_name :: "string \<Rightarrow> string \<Rightarrow> error + string" where
  "sanitize_secret_name name random_suffix =
     (if \<not> suffix_valid random_suffix then Inl RuntimeError
      else
        let sanitized = strip CHR ''/'' (collapse_slashes (replace_disallowed name))
        in if sanitized = [] then Inl ValueError
           else
             let max_base_length = 512 - int (length random_suffix) - 1;
                 sanitized = (if int (length sanitized) > max_base_length
                              then rstrip CHR ''/'' (slice_to sanitized max_base_length)
                              else sanitized)
             in if sanitized = [] then Inl ValueError
                else Inr (sanitized @ ''_'' @ random_suffix))"

section \<open>The remote service description and the deployer settings\<close>

text \<open>
  The part of the dictionary returned by \<^verbatim>\<open>describe_service\<close> that the deployer
  reads, one record per nested dictionary. A key that may be missing is an optional
  field, so \<^verbatim>\<open>d.get(k)\<close> is the field itself and \<^verbatim>\<open>d.get(k, {})\<close> followed by
  further \<^verbatim>\<open>get\<close>s is a chain of \<open>Option.bind\<close>.
\<close>

record ingress_configuration =
  IsPubliclyAccessible :: "bool option"

record egress_configuration =
  VpcConnectorArn :: "string option"

record network_configuration =
  IngressConfiguration :: "ingress_configuration option"
  EgressConfiguration :: "egress_configuration option"

record encryption_configuration =
  KmsKey :: "string option"

record auto_scaling_configuration_summary =
  AutoScalingConfigurationArn :: "string option"

record app_runner_service =
  ServiceName :: "string option"
  ServiceArn :: "string option"
  ServiceUrl :: "string option"
  Status :: "string option"
  ImageIdentifier :: "string option"
  AutoScalingConfigurationSummary :: "auto_scaling_configuration_summary option"
  NetworkConfiguration :: "network_configuration option"
  EncryptionConfiguration :: "encryption_configuration option"

text \<open>
  The fields of \<^verbatim>\<open>AWSDeployerSettings\<close> read by the functions modelled here
  (those that only enter the request sent to App Runner are left out).
\<close>

record aws_deployer_settings =
  is_publicly_accessible :: bool
  ingress_vpc_configuration :: "string option"
  encryption_kms_key :: "string option"
  use_secrets_manager :: bool
  secret_name_prefix :: string
  environment_variables :: "string \<rightharpoonup> string"
  service_name_prefix :: string
  access_role_arn :: "string option"
  instance_role_arn :: "string option"

text \<open>Truthiness of an optional string: \<^verbatim>\<open>bool(None)\<close> and \<^verbatim>\<open>bool("")\<close> are false.\<close>

fun truthy :: "string option \<Rightarrow> bool" where
  "truthy None = False"
| "truthy (Some s) = (s \<noteq> [])"

section \<open>Replacement or update\<close>

text \<open>The three values \<^verbatim>\<open>_requires_service_replacement\<close> reads from the service.\<close>

definition current_public_access :: "app_runner_service \<Rightarrow> bool option" where
  "current_public_access existing_service =
     Option.bind (Option.bind (NetworkConfiguration existing_service) IngressConfiguration)
       IsPubliclyAccessible"

definition has_current_vpc :: "app_runner_service \<Rightarrow> bool" where
  "has_current_vpc existing_service =
     truthy (Option.bind (Option.bind (NetworkConfiguration existing_service) EgressConfiguration)
               VpcConnectorArn)"

definition current_kms_key :: "app_runner_service \<Rightarrow> string option" where
  "current_kms_key existing_service =
     Option.bind (EncryptionConfiguration existing_service) KmsKey"

text \<open>
  \<^verbatim>\<open>_requires_service_replacement\<close>: three checks in sequence, each returning
  \<^verbatim>\<open>True\<close> early; \<^verbatim>\<open>False\<close> when none fires. A missing
  \<^verbatim>\<open>IsPubliclyAccessible\<close> is \<^verbatim>\<open>None\<close>, which differs from either boolean.
\<close>

definition requires_service_replacement ::
    "app_runner_service \<Rightarrow> aws_deployer_settings \<Rightarrow> bool" where
  "requires_service_replacement existing_service settings =
     (if current_public_access existing_service \<noteq> Some (is_publicly_accessible settings)
      then True
      else if has_current_vpc existing_service \<noteq> truthy (ingress_vpc_configuration settings)
      then True
      else if current_kms_key existing_service \<noteq> encryption_kms_key settings
      then True
      else False)"

section \<open>Operational state\<close>

datatype pipeline_endpoint_status = UNKNOWN | PENDING | RUNNING | ERROR | ABSENT

text \<open>
  The entries of \<^verbatim>\<open>AppRunnerPipelineEndpointMetadata\<close> that identify the service and
  its auxiliary resources; the remaining entries mirror further fields of the service.
\<close>

record endpoint_metadata =
  service_name :: "string option"
  service_arn :: "string option"
  service_url :: "string option"
  region :: "string option"
  status_text :: "string option"
  auto_scaling_configuration_arn :: "string option"
  secret_arn :: "string option"

definition from_app_runner_service ::
    "app_runner_service \<Rightarrow> string \<Rightarrow> string option \<Rightarrow> endpoint_metadata" where
  "from_app_runner_service service rgn secret =
     \<lparr>service_name = ServiceName service,
      service_arn = ServiceArn service,
      service_url = ServiceUrl service,
      region = Some rgn,
      status_text = Status service,
      auto_scaling_configuration_arn =
        Option.bind (AutoScalingConfigurationSummary service) AutoScalingConfigurationArn,
      secret_arn = secret\<rparr>"

record operational_state =
  status :: pipeline_endpoint_status
  url :: "string option"
  metadata :: endpoint_metadata

text \<open>\<^verbatim>\<open>str.upper\<close> on the ASCII letters, and \<^verbatim>\<open>str.startswith\<close>.\<close>

definition upper_char :: "char \<Rightarrow> char" where
  "upper_char c = (if in_range CHR ''a'' CHR ''z'' c then char_of (of_char c - (32::nat)) else c)"

definition upper :: "string \<Rightarrow> string" where
  "upper s = map upper_char s"

definition startswith :: "string \<Rightarrow> string \<Rightarrow> bool" where
  "startswith s p = (take (length p) s = p)"

text \<open>
  \<^verbatim>\<open>_get_service_operational_state\<close>. The state starts as \<^verbatim>\<open>UNKNOWN\<close> with no
  URL; only the \<^verbatim>\<open>RUNNING\<close> branch assigns the URL, and it adds the scheme only to
  a URL that is present and not empty.
\<close>

definition get_service_operational_state ::
    "app_runner_service \<Rightarrow> string \<Rightarrow> string option \<Rightarrow> operational_state" where
  "get_service_operational_state service rgn secret =
     (let state = \<lparr>status = UNKNOWN, url = None,
                    metadata = from_app_runner_service service rgn secret\<rparr>;
          service_status = upper (case Status service of None \<Rightarrow> [] | Some s \<Rightarrow> s)
      in if service_status = ''CREATE_FAILED'' \<or> service_status = ''DELETE_FAILED''
         then state\<lparr>status := ERROR\<rparr>
         else if service_status = ''OPERATION_IN_PROGRESS''
         then state\<lparr>status := PENDING\<rparr>
         else if service_status = ''RUNNING''
         then (let u = ServiceUrl service
               in state\<lparr>status := RUNNING,
                        url := (if truthy u \<and> \<not> startswith (the u) ''https://''
                                then Some (''https://'' @ the u) else u)\<rparr>)
         else if service_status = ''DELETED''
         then state\<lparr>status := ABSENT\<rparr>
         else if service_status = ''PAUSED''
         then state\<lparr>status := PENDING\<rparr>
         else state\<lparr>status := UNKNOWN\<rparr>)"

section \<open>Example services and settings\<close>

text \<open>
  A public service without VPC connector or key, as \<^verbatim>\<open>describe_service\<close> reports
  it, and settings that ask for the same.
\<close>

definition example_service :: app_runner_service where
  "example_service =
     \<lparr>ServiceName = Some ''zenml-endpoint'', ServiceArn = Some ''arn:service'',
      ServiceUrl = Some ''abc.awsapprunner.com'', Status = Some ''RUNNING'',
      ImageIdentifier = Some ''registry/image:1'',
      AutoScalingConfigurationSummary = None,
      NetworkConfiguration =
        Some \<lparr>IngressConfiguration = Some \<lparr>IsPubliclyAccessible = Some True\<rparr>,
              EgressConfiguration = None\<rparr>,
      EncryptionConfiguration = None\<rparr>"

definition example_settings :: aws_deployer_settings where
  "example_settings =
     \<lparr>is_publicly_accessible = True, ingress_vpc_configuration = None,
      encryption_kms_key = None, use_secrets_manager = True,
      secret_name_prefix = ''zenml-'', environment_variables = Map.empty,
      service_name_prefix = ''zenml-'', access_role_arn = None, instance_role_arn = None\<rparr>"

text \<open>
  A private service attached to a VPC connector and encrypted with a customer key, and
  settings that ask for the same.
\<close>

definition private_service :: app_runner_service where
  "private_service =
     \<lparr>ServiceName = Some ''zenml-endpoint'', ServiceArn = Some ''arn:service'',
      ServiceUrl = Some ''abc.awsapprunner.com'', Status = Some ''RUNNING'',
      ImageIdentifier = Some ''registry/image:1'',
      AutoScalingConfigurationSummary = None,
      NetworkConfiguration =
        Some \<lparr>IngressConfiguration = Some \<lparr>IsPubliclyAccessible = Some False\<rparr>,
              EgressConfiguration = Some \<lparr>VpcConnectorArn = Some ''arn:connector''\<rparr>\<rparr>,
      EncryptionConfiguration = Some \<lparr>KmsKey = Some ''arn:key-1''\<rparr>\<rparr>"

definition private_settings :: aws_deployer_settings where
  "private_settings =
     \<lparr>is_publicly_accessible = False, ingress_vpc_configuration = Some ''{}'',
      encryption_kms_key = Some ''arn:key-1'', use_secrets_manager = True,
      secret_name_prefix = ''zenml-'', environment_variables = Map.empty,
      service_name_prefix = ''zenml-'', access_role_arn = None, instance_role_arn = None\<rparr>"

section \<open>Remote calls, traces and exceptions\<close>

text \<open>
  The deployer talks to App Runner, Secrets Manager and CloudWatch Logs through client
  objects. A run of one of its methods is modelled by its outcome (the value returned or
  the exception raised) together with the trace of what it did, in order: the remote
  calls it issued, the polling of the endpoint and the warnings it logged
  (\<^verbatim>\<open>logger.warning\<close>; debug and exception logging is not recorded).
\<close>

datatype event =
    DescribeService string
  | DeleteService string
  | UpdateService string
  | TagResource string
  | CreateService string
  | UpdateSecret string
  | CreateSecret string
  | DescribeSecret string
  | DeleteSecret string
  | DescribeAutoScalingConfiguration string
  | CreateAutoScalingConfiguration string int int int
  | DeleteAutoScalingConfiguration string
  | DescribeLogStreams string
  | GetLogEvents string string
  | PollEndpoint
  | Warning

type_synonym 'a action = "(error + 'a) \<times> event list"

definition return :: "'a \<Rightarrow> 'a action" where
  "return x = (Inr x, [])"

definition raise :: "error \<Rightarrow> 'a action" where
  "raise e = (Inl e, [])"

text \<open>Sequencing: the second step runs only if the first returned.\<close>

definition and_then :: "'a action \<Rightarrow> ('a \<Rightarrow> 'b action) \<Rightarrow> 'b action" where
  "and_then m f =
     (case m of
        (Inl e, t) \<Rightarrow> (Inl e, t)
      | (Inr x, t) \<Rightarrow> (case f x of (r, t') \<Rightarrow> (r, t @ t')))"

text \<open>
  \<^verbatim>\<open>try: m except ...: h\<close>. The handler \<open>h\<close> receives the exception and decides
  what the \<^verbatim>\<open>except\<close> clauses do with it; an exception that no clause matches is
  raised again by \<open>h\<close>.
\<close>

definition try_except :: "'a action \<Rightarrow> (error \<Rightarrow> 'a action) \<Rightarrow> 'a action" where
  "try_except m h =
     (case m of
        (Inl e, t) \<Rightarrow> (case h e of (r, t') \<Rightarrow> (r, t @ t'))
      | (Inr x, t) \<Rightarrow> (Inr x, t))"

text \<open>A remote call: the trace records it, the outcome is the remote side's response.\<close>

definition remote_call :: "event \<Rightarrow> error + 'a \<Rightarrow> 'a action" where
  "remote_call ev response = (response, [ev])"

definition log_warning :: "unit action" where
  "log_warning = (Inr (), [Warning])"

text \<open>The outcome of a computation without effects.\<close>

definition lift :: "error + 'a \<Rightarrow> 'a action" where
  "lift r = (r, [])"

text \<open>
  The exception classes named in \<^verbatim>\<open>except\<close> clauses:
  \<^verbatim>\<open>except (ClientError, BotoCoreError)\<close> matches exactly these two, and
  \<^verbatim>\<open>except Exception\<close> matches every exception of the model.
\<close>

fun is_client_or_botocore_error :: "error \<Rightarrow> bool" where
  "is_client_or_botocore_error (ClientError code) = True"
| "is_client_or_botocore_error BotoCoreError = True"
| "is_client_or_botocore_error e = False"

text \<open>
  The responses of the remote services, as the clients deliver them: a value, or
  \<open>ClientError code\<close> for an error response, or \<open>BotoCoreError\<close> when no response
  was obtained. Responses are taken to be well formed, so that reading a key of a
  response does not fail. The secret calls return the \<^verbatim>\<open>ARN\<close> of the response and
  take the secret's value as the dictionary that the deployer serialises; an
  auto-scaling configuration is described by
  \<^verbatim>\<open>(MaxConcurrency, MaxSize, MinSize)\<close> and its creation returns the new ARN. The
  calls that update or create a service return the \<^verbatim>\<open>Service\<close> of the response
  and are identified by the ARN or name of the service they address. The clients
  themselves and the region are taken as established.
\<close>

record remote =
  client_describe_service :: "string \<Rightarrow> error + app_runner_service"
  client_delete_service :: "string \<Rightarrow> error + unit"
  client_update_service :: "string \<Rightarrow> error + app_runner_service"
  client_tag_resource :: "string \<Rightarrow> error + unit"
  client_create_service :: "string \<Rightarrow> error + app_runner_service"
  client_update_secret :: "string \<Rightarrow> (string \<rightharpoonup> string) \<Rightarrow> error + string"
  client_create_secret :: "string \<Rightarrow> (string \<rightharpoonup> string) \<Rightarrow> error + string"
  client_describe_secret :: "string \<Rightarrow> error + unit"
  client_delete_secret :: "string \<Rightarrow> error + unit"
  client_describe_auto_scaling_configuration :: "string \<Rightarrow> error + (int \<times> int \<times> int)"
  client_create_auto_scaling_configuration ::
    "string \<Rightarrow> int \<Rightarrow> int \<Rightarrow> int \<Rightarrow> error + string"
  client_delete_auto_scaling_configuration :: "string \<Rightarrow> error + unit"

text \<open>
  \<^verbatim>\<open>PipelineEndpointResponse\<close>: the name, the id (as the string \<^verbatim>\<open>str(endpoint.id)\<close>)
  and the metadata persisted by the previous call, taken to validate into
  \<^verbatim>\<open>AppRunnerPipelineEndpointMetadata\<close>, so that \<^verbatim>\<open>from_endpoint\<close> is the
  projection.
\<close>

record pipeline_endpoint =
  endpoint_name :: string
  endpoint_id :: string
  endpoint_metadata :: endpoint_metadata

section \<open>The App Runner service of an endpoint\<close>

text \<open>
  \<^verbatim>\<open>_get_app_runner_service\<close>: no service without a recorded ARN; otherwise the
  service is looked up, \<^verbatim>\<open>ResourceNotFoundException\<close> meaning that there is none and
  every other exception being passed on.
\<close>

definition get_app_runner_service ::
    "remote \<Rightarrow> pipeline_endpoint \<Rightarrow> app_runner_service option action" where
  "get_app_runner_service rem endpoint =
     (let existing_metadata = endpoint_metadata endpoint
      in if \<not> truthy (service_arn existing_metadata) then return None
         else try_except
                (and_then
                   (remote_call (DescribeService (the (service_arn existing_metadata)))
                      (client_describe_service rem (the (service_arn existing_metadata))))
                   (\<lambda>service. return (Some service)))
                (\<lambda>e. case e of
                        ClientError code \<Rightarrow>
                          if code = ''ResourceNotFoundException'' then return None
                          else raise e
                      | _ \<Rightarrow> raise e))"

section \<open>Secrets\<close>

text \<open>
  \<^verbatim>\<open>_get_secret_name\<close>, with the endpoint's name and id (\<^verbatim>\<open>str(endpoint_id)\<close>)
  as \<open>name\<close> and \<open>uuid\<close>.
\<close>

definition get_secret_name :: "string \<Rightarrow> string \<Rightarrow> string \<Rightarrow> error + string" where
  "get_secret_name name uuid name_prefix =
     (let endpoint_id_short = take 8 uuid;
          raw_name = name_prefix @ name
      in sanitize_secret_name raw_name endpoint_id_short)"

text \<open>
  \<^verbatim>\<open>_create_or_update_secret\<close>: update first; if the secret does not exist, create
  it. Whatever \<^verbatim>\<open>ClientError\<close> or \<^verbatim>\<open>BotoCoreError\<close> leaves the inner
  \<^verbatim>\<open>try\<close> is raised as \<^verbatim>\<open>DeployerError\<close>.
\<close>

definition create_or_update_secret ::
    "remote \<Rightarrow> string \<Rightarrow> (string \<rightharpoonup> string) \<Rightarrow> pipeline_endpoint \<Rightarrow> string action" where
  "create_or_update_secret rem secret_name secret_value endpoint =
     try_except
       (try_except
          (remote_call (UpdateSecret secret_name)
             (client_update_secret rem secret_name secret_value))
          (\<lambda>e. case e of
                  ClientError code \<Rightarrow>
                    if code = ''ResourceNotFoundException''
                    then remote_call (CreateSecret secret_name)
                           (client_create_secret rem secret_name secret_value)
                    else raise e
                | _ \<Rightarrow> raise e))
       (\<lambda>e. if is_client_or_botocore_error e then raise DeployerError else raise e)"

text \<open>
  \<^verbatim>\<open>_get_secret_arn\<close>: the recorded ARN, if it is not empty and the secret still
  exists. Only \<^verbatim>\<open>ClientError\<close> is handled, with \<^verbatim>\<open>None\<close> in both branches.
\<close>

definition get_secret_arn :: "remote \<Rightarrow> pipeline_endpoint \<Rightarrow> string option action" where
  "get_secret_arn rem endpoint =
     (let metadata = endpoint_metadata endpoint
      in if \<not> truthy (secret_arn metadata) then return None
         else try_except
                (and_then
                   (remote_call (DescribeSecret (the (secret_arn metadata)))
                      (client_describe_secret rem (the (secret_arn metadata))))
                   (\<lambda>response. return (secret_arn metadata)))
                (\<lambda>e. case e of
                        ClientError code \<Rightarrow>
                          if code = ''ResourceNotFoundException'' then return None
                          else return None
                      | _ \<Rightarrow> raise e))"

text \<open>\<^verbatim>\<open>_delete_secret\<close>: a \<^verbatim>\<open>ClientError\<close> is logged and dropped.\<close>

definition delete_secret :: "remote \<Rightarrow> string \<Rightarrow> unit action" where
  "delete_secret rem arn =
     try_except
       (remote_call (DeleteSecret arn) (client_delete_secret rem arn))
       (\<lambda>e. case e of
               ClientError code \<Rightarrow> return ()
             | _ \<Rightarrow> raise e)"

text \<open>\<^verbatim>\<open>_cleanup_endpoint_secrets\<close>.\<close>

definition cleanup_endpoint_secrets :: "remote \<Rightarrow> pipeline_endpoint \<Rightarrow> unit action" where
  "cleanup_endpoint_secrets rem endpoint =
     and_then (get_secret_arn rem endpoint)
       (\<lambda>secret_arn. if truthy secret_arn then delete_secret rem (the secret_arn)
                      else return ())"

section \<open>Auto-scaling configuration\<close>

text \<open>\<^verbatim>\<open>_get_auto_scaling_config_arn\<close>.\<close>

definition get_auto_scaling_config_arn :: "pipeline_endpoint \<Rightarrow> string option" where
  "get_auto_scaling_config_arn endpoint =
     auto_scaling_configuration_arn (endpoint_metadata endpoint)"

text \<open>
  \<^verbatim>\<open>_create_or_update_auto_scaling_config\<close>. A recorded ARN that is not empty is
  looked up first; if the lookup succeeds and the three values agree the method returns
  that ARN at once (\<open>Some\<close> below). If they differ, or the lookup fails with
  \<^verbatim>\<open>InvalidRequestException\<close>, control falls through to the creation, as it does
  without a recorded ARN. Whatever \<^verbatim>\<open>ClientError\<close> or \<^verbatim>\<open>BotoCoreError\<close>
  leaves the body is raised as \<^verbatim>\<open>DeployerError\<close>.
\<close>

definition create_or_update_auto_scaling_config ::
    "remote \<Rightarrow> string \<Rightarrow> int \<Rightarrow> int \<Rightarrow> int \<Rightarrow> pipeline_endpoint \<Rightarrow> string action" where
  "create_or_update_auto_scaling_config rem config_name min_size max_size max_conc endpoint =
     try_except
       (let existing_arn = get_auto_scaling_config_arn endpoint
        in and_then
             (if truthy existing_arn then
                try_except
                  (and_then
                     (remote_call (DescribeAutoScalingConfiguration (the existing_arn))
                        (client_describe_auto_scaling_configuration rem (the existing_arn)))
                     (\<lambda>(MaxConcurrency, MaxSize, MinSize).
                         if MaxConcurrency = max_conc \<and> MaxSize = max_size
                            \<and> MinSize = min_size
                         then return existing_arn
                         else return None))
                  (\<lambda>e. case e of
                          ClientError code \<Rightarrow>
                            if code \<noteq> ''InvalidRequestException'' then raise e
                            else return None
                        | _ \<Rightarrow> raise e)
              else return None)
             (\<lambda>returned. case returned of
                  Some arn \<Rightarrow> return arn
                | None \<Rightarrow>
                    remote_call
                      (CreateAutoScalingConfiguration config_name max_conc max_size min_size)
                      (client_create_auto_scaling_configuration rem
                         config_name max_conc max_size min_size)))
       (\<lambda>e. if is_client_or_botocore_error e then raise DeployerError else raise e)"

text \<open>
  \<^verbatim>\<open>_cleanup_endpoint_auto_scaling_config\<close>: every failure of the deletion is
  dropped, with a warning unless the configuration was already gone.
\<close>

definition cleanup_endpoint_auto_scaling_config ::
    "remote \<Rightarrow> pipeline_endpoint \<Rightarrow> unit action" where
  "cleanup_endpoint_auto_scaling_config rem endpoint =
     (let config_arn = get_auto_scaling_config_arn endpoint
      in if truthy config_arn then
           try_except
             (remote_call (DeleteAutoScalingConfiguration (the config_arn))
                (client_delete_auto_scaling_configuration rem (the config_arn)))
             (\<lambda>e. case e of
                     ClientError code \<Rightarrow>
                       if code = ''ResourceNotFoundException'' then return ()
                       else log_warning
                   | _ \<Rightarrow> log_warning)
         else return ())"

section \<open>Environment variables and secrets of a deployment\<close>

text \<open>
  \<^verbatim>\<open>_prepare_environment_variables\<close>, returning
  \<^verbatim>\<open>(env_vars, secret_refs, active_secret_arn)\<close>. The secret's value is the
  dictionary \<^verbatim>\<open>secrets\<close> (its JSON encoding is not modelled). The handler of the
  \<^verbatim>\<open>try\<close> catches every exception, logs a warning and adds the secrets to the
  environment variables; the lookup and deletion of the previously recorded secret
  follow the \<^verbatim>\<open>try\<close> statement and are not covered by it.
\<close>

definition prepare_environment_variables ::
    "remote \<Rightarrow> pipeline_endpoint \<Rightarrow> (string \<rightharpoonup> string) \<Rightarrow> (string \<rightharpoonup> string) \<Rightarrow>
     aws_deployer_settings \<Rightarrow>
     ((string \<rightharpoonup> string) \<times> (string \<rightharpoonup> string) \<times> string option) action" where
  "prepare_environment_variables rem endpoint environment secrets settings =
     (let merged_env = environment_variables settings ++ environment;
          env_vars = merged_env
      in if secrets \<noteq> Map.empty then
           (if use_secrets_manager settings then
              and_then
                (lift (get_secret_name (endpoint_name endpoint) (endpoint_id endpoint)
                         (secret_name_prefix settings)))
                (\<lambda>secret_name.
                   and_then
                     (try_except
                        (and_then
                           (create_or_update_secret rem secret_name secrets endpoint)
                           (\<lambda>secret_arn.
                              return
                                (env_vars,
                                 (\<lambda>key. case secrets key of
                                           None \<Rightarrow> None
                                         | Some v \<Rightarrow> Some (secret_arn @ '':'' @ key @ ''::'')),
                                 Some secret_arn)))
                        (\<lambda>e. and_then log_warning
                                (\<lambda>u. return (env_vars ++ secrets, Map.empty, None))))
                     (\<lambda>(env_vars, secret_refs, active_secret_arn).
                        and_then (get_secret_arn rem endpoint)
                          (\<lambda>existing_secret_arn.
                             and_then
                               (if truthy existing_secret_arn
                                   \<and> existing_secret_arn \<noteq> active_secret_arn
                                then delete_secret rem (the existing_secret_arn)
                                else return ())
                               (\<lambda>u. return (env_vars, secret_refs, active_secret_arn)))))
            else and_then log_warning
                   (\<lambda>u. return (env_vars ++ secrets, Map.empty, None)))
         else return (env_vars, Map.empty, None))"

section \<open>Deprovisioning\<close>

text \<open>
  \<^verbatim>\<open>do_deprovision_pipeline_endpoint\<close>. The polling helper
  \<^verbatim>\<open>_poll_pipeline_endpoint\<close> belongs to the deployer base class, outside this
  module; it is the parameter \<open>poll_pipeline_endpoint\<close>, called with the endpoint, the
  awaited status and the timeout and giving the last observed operational state (or an
  exception), and its activity is recorded as one \<open>PollEndpoint\<close> event. The result
  \<open>Some state\<close> is the state returned when the service is not yet absent, \<open>None\<close>
  the \<^verbatim>\<open>None\<close> returned after the clean-up.
\<close>

definition do_deprovision_pipeline_endpoint ::
    "remote \<Rightarrow>
     (pipeline_endpoint \<Rightarrow> pipeline_endpoint_status \<Rightarrow> int \<Rightarrow> error + operational_state) \<Rightarrow>
     pipeline_endpoint \<Rightarrow> int \<Rightarrow> operational_state option action" where
  "do_deprovision_pipeline_endpoint rem poll_pipeline_endpoint endpoint timeout =
     and_then (get_app_runner_service rem endpoint)
       (\<lambda>service.
          if service = None then raise PipelineEndpointNotFoundError
          else
            and_then
              (try_except
                 (let existing_metadata = endpoint_metadata endpoint
                  in if \<not> truthy (service_arn existing_metadata) then raise RuntimeError
                     else remote_call (DeleteService (the (service_arn existing_metadata)))
                            (client_delete_service rem (the (service_arn existing_metadata))))
                 (\<lambda>e. case e of
                         ClientError code \<Rightarrow>
                           if code = ''ResourceNotFoundException''
                           then raise PipelineEndpointNotFoundError
                           else raise PipelineEndpointDeprovisionError
                       | _ \<Rightarrow> raise DeployerError))
              (\<lambda>deleted.
                 let endpoint_before_deletion = endpoint
                 in and_then
                      (remote_call PollEndpoint (poll_pipeline_endpoint endpoint ABSENT timeout))
                      (\<lambda>endpoint_state.
                         if status endpoint_state \<noteq> ABSENT then return (Some endpoint_state)
                         else
                           and_then
                             (try_except
                                (and_then (cleanup_endpoint_secrets rem endpoint_before_deletion)
                                   (\<lambda>u. cleanup_endpoint_auto_scaling_config rem
                                          endpoint_before_deletion))
                                (\<lambda>e. raise DeployerError))
                             (\<lambda>u. return None))))"

section \<open>Example endpoint and remote services\<close>

text \<open>
  An endpoint that was deployed before: its metadata records the service, an auto-scaling
  configuration and a secret. The remote side knows the service and the configuration
  (100 concurrent requests, 1 to 25 instances), accepts every deletion and every update
  or creation of a service; secrets are created on demand.
\<close>

definition example_endpoint :: pipeline_endpoint where
  "example_endpoint =
     \<lparr>endpoint_name = ''my-endpoint'',
      endpoint_id = ''123e4567-e89b-12d3-a456-426614174000'',
      endpoint_metadata =
        \<lparr>service_name = Some ''zenml-endpoint'', service_arn = Some ''arn:service'',
         service_url = Some ''abc.awsapprunner.com'', region = Some ''eu-central-1'',
         status_text = Some ''RUNNING'',
         auto_scaling_configuration_arn = Some ''arn:autoscaling/1'',
         secret_arn = Some ''arn:secret/old''\<rparr>\<rparr>"

definition example_remote :: remote where
  "example_remote =
     \<lparr>client_describe_service =
        (\<lambda>arn. if arn = ''arn:service'' then Inr example_service
               else Inl (ClientError ''ResourceNotFoundException'')),
      client_delete_service = (\<lambda>arn. Inr ()),
      client_update_service =
        (\<lambda>arn. Inr (example_service\<lparr>ServiceArn := Some arn,
                                        Status := Some ''OPERATION_IN_PROGRESS''\<rparr>)),
      client_tag_resource = (\<lambda>arn. Inr ()),
      client_create_service =
        (\<lambda>name. Inr (example_service\<lparr>ServiceName := Some name,
                                         ServiceArn := Some (''arn:service/'' @ name),
                                         Status := Some ''OPERATION_IN_PROGRESS''\<rparr>)),
      client_update_secret = (\<lambda>name v. Inl (ClientError ''ResourceNotFoundException'')),
      client_create_secret = (\<lambda>name v. Inr (''arn:secret/'' @ name)),
      client_describe_secret = (\<lambda>arn. Inr ()),
      client_delete_secret = (\<lambda>arn. Inr ()),
      client_describe_auto_scaling_configuration =
        (\<lambda>arn. if arn = ''arn:autoscaling/1'' then Inr (100, 25, 1)
               else Inl (ClientError ''InvalidRequestException'')),
      client_create_auto_scaling_configuration = (\<lambda>name mc mx mn. Inr ''arn:autoscaling/2''),
      client_delete_auto_scaling_configuration = (\<lambda>arn. Inr ())\<rparr>"

text \<open>
  Two outcomes of the polling: the service is still being deleted when the timeout
  elapses, or it is gone.
\<close>

definition example_pending_state :: operational_state where
  "example_pending_state =
     \<lparr>status = PENDING, url = None, metadata = endpoint_metadata example_endpoint\<rparr>"

definition example_absent_state :: operational_state where
  "example_absent_state =
     \<lparr>status = ABSENT, url = None, metadata = endpoint_metadata example_endpoint\<rparr>"

text \<open>
  Secrets Manager out of reach: each of its calls ends without a response. The endpoint
  above was deployed before and records a secret; a fresh endpoint records nothing.
\<close>

definition secrets_manager_unreachable :: remote where
  "secrets_manager_unreachable =
     example_remote
       \<lparr>client_update_secret := (\<lambda>name v. Inl BotoCoreError),
        client_create_secret := (\<lambda>name v. Inl BotoCoreError),
        client_describe_secret := (\<lambda>arn. Inl BotoCoreError),
        client_delete_secret := (\<lambda>arn. Inl BotoCoreError)\<rparr>"

definition fresh_endpoint :: pipeline_endpoint where
  "fresh_endpoint =
     \<lparr>endpoint_name = ''my-endpoint'',
      endpoint_id = ''123e4567-e89b-12d3-a456-426614174000'',
      endpoint_metadata =
        \<lparr>service_name = None, service_arn = None, service_url = None, region = None,
         status_text = None, auto_scaling_configuration_arn = None, secret_arn = None\<rparr>\<rparr>"

definition example_secrets :: "string \<rightharpoonup> string" where
  "example_secrets = [''API_KEY'' \<mapsto> ''s3cr3t'']"

section \<open>Logs\<close>

text \<open>
  A log event as \<^verbatim>\<open>get_log_events\<close> delivers it; either key may be missing.
\<close>

record log_event =
  timestamp :: "int option"
  message :: "string option"

text \<open>
  The responses of the CloudWatch Logs client: the names of the log streams of a group
  (none when the response has no \<^verbatim>\<open>logStreams\<close>) and the events of a stream.
\<close>

record logs_remote =
  client_describe_log_streams :: "string \<Rightarrow> error + string list"
  client_get_log_events :: "string \<Rightarrow> string \<Rightarrow> error + log_event list"

text \<open>
  One line per event. The rendering of the timestamp,
  \<^verbatim>\<open>datetime.fromtimestamp(timestamp / 1000.0).isoformat()\<close>, belongs to the standard
  library and depends on the local time zone; it is the parameter \<open>format_time\<close>,
  taken to succeed.
\<close>

definition log_line :: "(int \<Rightarrow> string) \<Rightarrow> log_event \<Rightarrow> string" where
  "log_line format_time event =
     (let ts = (case timestamp event of None \<Rightarrow> 0 | Some t \<Rightarrow> t);
          msg = (case message event of None \<Rightarrow> [] | Some m \<Rightarrow> m);
          formatted_time = format_time ts
      in ''['' @ formatted_time @ ''] '' @ msg)"

text \<open>The loop over the streams, appending the lines of each stream's events.\<close>

fun collect_log_lines ::
    "logs_remote \<Rightarrow> (int \<Rightarrow> string) \<Rightarrow> string \<Rightarrow> string list \<Rightarrow> string list action" where
  "collect_log_lines logs format_time log_group_name [] = return []"
| "collect_log_lines logs format_time log_group_name (stream_name # streams) =
     and_then
       (remote_call (GetLogEvents log_group_name stream_name)
          (client_get_log_events logs log_group_name stream_name))
       (\<lambda>events.
          and_then (collect_log_lines logs format_time log_group_name streams)
            (\<lambda>log_lines. return (map (log_line format_time) events @ log_lines)))"

text \<open>
  \<^verbatim>\<open>list.sort\<close> on strings: ascending in the lexicographic order of the characters'
  code points.
\<close>

fun string_le :: "string \<Rightarrow> string \<Rightarrow> bool" where
  "string_le [] t = True"
| "string_le (c # s) [] = False"
| "string_le (c # s) (d # t) =
     (if c = d then string_le s t else (of_char c :: nat) < of_char d)"

fun insert_line :: "string \<Rightarrow> string list \<Rightarrow> string list" where
  "insert_line l [] = [l]"
| "insert_line l (k # ks) = (if string_le l k then l # k # ks else k # insert_line l ks)"

definition sort_lines :: "string list \<Rightarrow> string list" where
  "sort_lines ls = foldr insert_line ls []"

text \<open>
  The body of \<^verbatim>\<open>do_get_pipeline_endpoint_logs\<close> up to its \<^verbatim>\<open>yield\<close> loop: the
  lines that the loop will yield, or the exception raised before it. All remote calls
  precede the first \<^verbatim>\<open>yield\<close>. An exception raised by the handler of the inner
  \<^verbatim>\<open>try\<close> reaches the handlers of the outer one.
\<close>

definition logs_body ::
    "remote \<Rightarrow> logs_remote \<Rightarrow> (int \<Rightarrow> string) \<Rightarrow> pipeline_endpoint \<Rightarrow> bool \<Rightarrow>
     int option \<Rightarrow> string list action" where
  "logs_body rem logs format_time endpoint follow tail =
     (if follow then raise NotImplementedError
      else
        and_then (get_app_runner_service rem endpoint)
          (\<lambda>service.
             if service = None then raise PipelineEndpointNotFoundError
             else
               try_except
                 (let existing_metadata = endpoint_metadata endpoint;
                      name = service_name existing_metadata
                  in if \<not> truthy name then raise RuntimeError
                     else
                       let log_group_name = ''/aws/apprunner/'' @ the name @ ''/service''
                       in try_except
                            (and_then
                               (remote_call (DescribeLogStreams log_group_name)
                                  (client_describe_log_streams logs log_group_name))
                               (\<lambda>streams.
                                  and_then
                                    (collect_log_lines logs format_time log_group_name streams)
                                    (\<lambda>log_lines.
                                       let sorted = sort_lines log_lines
                                       in return
                                            (if tail \<noteq> None \<and> the tail > 0
                                             then drop (length sorted - nat (the tail)) sorted
                                             else sorted))))
                            (\<lambda>e. case e of
                                    ClientError code \<Rightarrow>
                                      if code = ''ResourceNotFoundException''
                                      then raise PipelineLogsNotFoundError
                                      else raise e
                                  | _ \<Rightarrow> raise e))
                 (\<lambda>e. if is_client_or_botocore_error e then raise PipelineLogsNotFoundError
                       else raise DeployerError)))"

text \<open>
  The function contains \<^verbatim>\<open>yield\<close>, so it is a generator function: calling it runs
  none of its body and returns a generator object holding the arguments. The body runs
  when the generator is advanced for the first time; from then on the generator hands out
  the remaining lines one at a time and ends with \<^verbatim>\<open>StopIteration\<close>. A generator
  whose body raised is finished.
\<close>

datatype generator_state = Created | Suspended "string list" | Finished

record log_generator =
  gen_endpoint :: pipeline_endpoint
  gen_follow :: bool
  gen_tail :: "int option"
  gen_state :: generator_state

definition do_get_pipeline_endpoint_logs ::
    "pipeline_endpoint \<Rightarrow> bool \<Rightarrow> int option \<Rightarrow> log_generator action" where
  "do_get_pipeline_endpoint_logs endpoint follow tail =
     return \<lparr>gen_endpoint = endpoint, gen_follow = follow, gen_tail = tail,
             gen_state = Created\<rparr>"

text \<open>\<^verbatim>\<open>next(generator)\<close>: the outcome with its trace, and the generator afterwards.\<close>

definition hand_out :: "log_generator \<Rightarrow> string list \<Rightarrow> event list \<Rightarrow> string action \<times> log_generator" where
  "hand_out g ls t =
     (case ls of
        [] \<Rightarrow> ((Inl StopIteration, t), g\<lparr>gen_state := Finished\<rparr>)
      | l # rest \<Rightarrow> ((Inr l, t), g\<lparr>gen_state := Suspended rest\<rparr>))"

definition generator_next ::
    "remote \<Rightarrow> logs_remote \<Rightarrow> (int \<Rightarrow> string) \<Rightarrow> log_generator \<Rightarrow>
     string action \<times> log_generator" where
  "generator_next rem logs format_time g =
     (case gen_state g of
        Created \<Rightarrow>
          (case logs_body rem logs format_time (gen_endpoint g) (gen_follow g) (gen_tail g) of
             (Inl e, t) \<Rightarrow> ((Inl e, t), g\<lparr>gen_state := Finished\<rparr>)
           | (Inr ls, t) \<Rightarrow> hand_out g ls t)
      | Suspended ls \<Rightarrow> hand_out g ls []
      | Finished \<Rightarrow> ((Inl StopIteration, []), g))"

text \<open>The lines a consumer obtains by advancing the generator at most \<open>n\<close> times.\<close>

fun collected ::
    "remote \<Rightarrow> logs_remote \<Rightarrow> (int \<Rightarrow> string) \<Rightarrow> nat \<Rightarrow> log_generator \<Rightarrow> string list" where
  "collected rem logs format_time 0 g = []"
| "collected rem logs format_time (Suc n) g =
     (case generator_next rem logs format_time g of
        ((Inl e, t), g') \<Rightarrow> []
      | ((Inr l, t), g') \<Rightarrow> l # collected rem logs format_time n g')"

text \<open>A log group with two streams, for the example endpoint's service.\<close>

definition example_logs :: logs_remote where
  "example_logs =
     \<lparr>client_describe_log_streams =
        (\<lambda>g. if g = ''/aws/apprunner/zenml-endpoint/service'' then Inr [''s1'', ''s2'']
              else Inl (ClientError ''ResourceNotFoundException'')),
      client_get_log_events =
        (\<lambda>g s. if s = ''s1''
                then Inr [\<lparr>timestamp = Some 2000, message = Some ''started''\<rparr>,
                          \<lparr>timestamp = Some 3000, message = Some ''ready''\<rparr>]
                else Inr [\<lparr>timestamp = Some 1000, message = Some ''pulling image''\<rparr>])\<rparr>"

definition example_format_time :: "int \<Rightarrow> string" where
  "example_format_time t =
     (if t = 1000 then ''1970-01-01T00:00:01''
      else if t = 2000 then ''1970-01-01T00:00:02''
      else if t = 3000 then ''1970-01-01T00:00:03''
      else ''1970-01-01T00:00:00'')"

section \<open>The deployment runtime context\<close>



















section \<open>Service and configuration names\<close>

text \<open>
  The class \<^verbatim>\<open>[a-zA-Z0-9-]\<close> of the two name sanitisers, the check
  \<^verbatim>\<open>re.match(r"^[a-zA-Z0-9-]+$", random_suffix)\<close>, and \<^verbatim>\<open>str.isalnum\<close>, which
  the sanitisers apply only to characters of that class.
\<close>

definition name_char :: "char \<Rightarrow> bool" where
  "name_char c = (in_range CHR ''a'' CHR ''z'' c \<or> in_range CHR ''A'' CHR ''Z'' c
                  \<or> in_range CHR ''0'' CHR ''9'' c \<or> c = CHR ''-'')"

definition name_suffix_valid :: "string \<Rightarrow> bool" where
  "name_suffix_valid s =
     ((s \<noteq> [] \<and> list_all name_char s)
      \<or> (s \<noteq> [] \<and> last s = CHR 0x0A \<and> butlast s \<noteq> [] \<and> list_all name_char (butlast s)))"

definition isalnum :: "char \<Rightarrow> bool" where
  "isalnum c = (in_range CHR ''a'' CHR ''z'' c \<or> in_range CHR ''A'' CHR ''Z'' c
                \<or> in_range CHR ''0'' CHR ''9'' c)"

text \<open>
  \<^verbatim>\<open>re.sub(r"[^a-zA-Z0-9-]", "-", name)\<close> and \<^verbatim>\<open>re.sub(r"-+", "-", sanitized)\<close>.
\<close>

definition hyphenate :: "string \<Rightarrow> string" where
  "hyphenate name = map (\<lambda>c. if name_char c then c else CHR ''-'') name"

fun collapse_hyphens :: "string \<Rightarrow> string" where
  "collapse_hyphens (c # d # cs) =
     (if c = CHR ''-'' \<and> d = CHR ''-'' then collapse_hyphens (d # cs)
      else c # collapse_hyphens (d # cs))"
| "collapse_hyphens cs = cs"

text \<open>\<^verbatim>\<open>_sanitize_app_runner_service_name\<close>.\<close>

definition sanitize_app_runner_service_name :: "string \<Rightarrow> string \<Rightarrow> error + string" where
  "sanitize_app_runner_service_name name random_suffix =
     (if \<not> name_suffix_valid random_suffix then Inl RuntimeError
      else
        let sanitized = strip CHR ''-'' (collapse_hyphens (hyphenate name))
        in if sanitized = [] \<or> \<not> isalnum (hd sanitized) then Inl ValueError
           else
             let sanitized = (if \<not> isalnum (last sanitized) then rstrip CHR ''-'' sanitized
                              else sanitized)
             in if sanitized = [] then Inl ValueError
                else
                  let max_base_length = 40 - int (length random_suffix) - 1;
                      sanitized = (if int (length sanitized) > max_base_length
                                   then rstrip CHR ''-'' (slice_to sanitized max_base_length)
                                   else sanitized)
                  in if sanitized = [] \<or> \<not> isalnum (hd sanitized)
                        \<or> \<not> isalnum (last sanitized)
                     then Inl ValueError
                     else
                       let final_name = sanitized @ ''-'' @ random_suffix
                       in if length final_name < 4 \<or> length final_name > 40
                          then Inl ValueError
                          else Inr final_name)"

text \<open>
  \<^verbatim>\<open>_get_service_name\<close>, with the endpoint's name and id (\<^verbatim>\<open>str(endpoint_id)\<close>) as
  \<open>name\<close> and \<open>uuid\<close>.
\<close>

definition get_service_name :: "string \<Rightarrow> string \<Rightarrow> string \<Rightarrow> error + string" where
  "get_service_name name uuid name_prefix =
     (let endpoint_id_short = take 8 uuid;
          raw_name = name_prefix @ name
      in sanitize_app_runner_service_name raw_name endpoint_id_short)"

text \<open>\<^verbatim>\<open>_sanitize_auto_scaling_config_name\<close>.\<close>

definition sanitize_auto_scaling_config_name :: "string \<Rightarrow> error + string" where
  "sanitize_auto_scaling_config_name name =
     (let sanitized = collapse_hyphens (hyphenate name)
      in if sanitized = [] \<or> \<not> isalnum (hd sanitized) then Inl ValueError
         else
           let sanitized = rstrip CHR ''-'' sanitized
           in if sanitized = [] then Inl ValueError
              else
                let sanitized = (if length sanitized > 32
                                 then rstrip CHR ''-'' (take 32 sanitized)
                                 else sanitized);
                    sanitized = (if length sanitized < 4
                                 then rstrip CHR ''-'' (take 32 (''zenml-'' @ sanitized))
                                 else sanitized)
                in Inr sanitized)"

text \<open>\<^verbatim>\<open>_get_auto_scaling_config_name\<close>.\<close>

definition get_auto_scaling_config_name :: "string \<Rightarrow> string \<Rightarrow> error + string" where
  "get_auto_scaling_config_name name uuid =
     (let endpoint_id_short = take 8 uuid;
          raw_name = ''zenml-'' @ name @ ''-'' @ endpoint_id_short
      in sanitize_auto_scaling_config_name raw_name)"

section \<open>Provisioning\<close>

text \<open>
  What \<^verbatim>\<open>do_provision_pipeline_endpoint\<close> reads of the endpoint's pipeline
  deployment: the deployer settings (\<^verbatim>\<open>get_settings\<close>), the resource settings of
  the pipeline configuration and the image (\<^verbatim>\<open>get_image\<close>).
\<close>

record pipeline_deployment =
  deployment_settings :: aws_deployer_settings
  deployment_resource_settings :: resource_settings
  deployment_image :: string

text \<open>\<^verbatim>\<open>sub in s\<close> on strings.\<close>

definition contains :: "string \<Rightarrow> string \<Rightarrow> bool" where
  "contains s sub = list_ex (\<lambda>n. take (length sub) (drop n s) = sub) [0 ..< Suc (length s)]"

text \<open>
  Truthiness of the service found, as in \<^verbatim>\<open>if existing_service\<close>: \<^verbatim>\<open>None\<close> and
  the empty dictionary are false. A description is represented by the keys which the
  deployer reads, so the one with none of them stands for the empty dictionary.
\<close>

definition service_truthy :: "app_runner_service option \<Rightarrow> bool" where
  "service_truthy service =
     (case service of
        None \<Rightarrow> False
      | Some d \<Rightarrow>
          d \<noteq> \<lparr>ServiceName = None, ServiceArn = None, ServiceUrl = None, Status = None,
                ImageIdentifier = None, AutoScalingConfigurationSummary = None,
                NetworkConfiguration = None, EncryptionConfiguration = None\<rparr>)"

text \<open>\<^verbatim>\<open>d[key]\<close> for a key that may be missing.\<close>

definition subscript :: "'a option \<Rightarrow> 'a action" where
  "subscript v = (case v of None \<Rightarrow> raise KeyError | Some x \<Rightarrow> return x)"

text \<open>
  \<^verbatim>\<open>do_provision_pipeline_endpoint\<close>. Taken from outside the module: the polling
  helper (as for deprovisioning), the JSON parser \<open>json_loads\<close> (of which only success
  or failure matters), the test \<open>deployer_error_subclass\<close> whether an exception class
  derives from \<^verbatim>\<open>DeployerError\<close>, and the region \<open>rgn\<close>. The requests sent to
  \<^verbatim>\<open>update_service\<close>, \<^verbatim>\<open>tag_resource\<close> and \<^verbatim>\<open>create_service\<close> are
  identified by the service ARN or name they address; their remaining payload
  (image, instance, health-check, network, traffic, encryption, observability
  configuration and tags) is built without remote calls and is not modelled, except
  for the warnings logged on the way and for the parsing of the VPC configuration.

  The service found is replaced only if it is true as a dictionary and
  \<^verbatim>\<open>_requires_service_replacement\<close> says so; in that case it is deprovisioned, a
  \<^verbatim>\<open>PipelineEndpointNotFoundError\<close> or \<^verbatim>\<open>DeployerError\<close> of the deprovisioning
  being logged and dropped, and \<^verbatim>\<open>existing_service\<close> becomes \<^verbatim>\<open>None\<close>. After
  the environment variables and the auto-scaling configuration are prepared, an
  \<^verbatim>\<open>existing_service\<close> that is still true is updated in place and tagged;
  otherwise a service is created.
\<close>

definition do_provision_pipeline_endpoint ::
    "remote \<Rightarrow>
     (pipeline_endpoint \<Rightarrow> pipeline_endpoint_status \<Rightarrow> int \<Rightarrow> error + operational_state) \<Rightarrow>
     (string \<Rightarrow> error + unit) \<Rightarrow> (error \<Rightarrow> bool) \<Rightarrow> string \<Rightarrow>
     pipeline_endpoint \<Rightarrow> pipeline_deployment option \<Rightarrow>
     (string \<rightharpoonup> string) \<Rightarrow> (string \<rightharpoonup> string) \<Rightarrow> int \<Rightarrow> operational_state action" where
  "do_provision_pipeline_endpoint rem poll_pipeline_endpoint json_loads deployer_error_subclass
       rgn endpoint deployment environment secrets timeout =
     (case deployment of
        None \<Rightarrow> raise AssertionError
      | Some dep \<Rightarrow>
          let settings = deployment_settings dep;
              resource_settings = deployment_resource_settings dep;
              (cpu, memory) = convert_resource_settings_to_aws_format resource_settings;
              (min_size, max_size, max_conc) =
                 convert_scaling_settings_to_aws_format resource_settings
          in
          and_then
            (lift (get_service_name (endpoint_name endpoint) (endpoint_id endpoint)
                     (service_name_prefix settings)))
            (\<lambda>name.
          and_then (get_app_runner_service rem endpoint)
            (\<lambda>found.
          let image = deployment_image dep
          in
          and_then
            (if service_truthy found \<and> requires_service_replacement (the found) settings
             then
               and_then
                 (try_except
                    (and_then
                       (do_deprovision_pipeline_endpoint rem poll_pipeline_endpoint
                          endpoint timeout)
                       (\<lambda>state. return ()))
                    (\<lambda>e. if e = PipelineEndpointNotFoundError then log_warning
                          else if e = DeployerError \<or> deployer_error_subclass e
                          then log_warning
                          else raise e))
                 (\<lambda>u. return None)
             else return found)
            (\<lambda>existing_service.
          and_then (prepare_environment_variables rem endpoint environment secrets settings)
            (\<lambda>(env_vars, secret_refs, active_secret_arn).
          let image_repo_type =
                (if contains image ''public.ecr.aws'' then ''ECR_PUBLIC''
                 else if contains image ''amazonaws.com'' then ''ECR''
                 else ''ECR_PUBLIC'')
          in
          and_then
            (if truthy (access_role_arn settings) then return ()
             else if image_repo_type = ''ECR'' then log_warning
             else return ())
            (\<lambda>u.
          and_then
            (if truthy (instance_role_arn settings) then return ()
             else if secret_refs \<noteq> Map.empty then log_warning
             else return ())
            (\<lambda>u.
          and_then
            (lift (get_auto_scaling_config_name (endpoint_name endpoint) (endpoint_id endpoint)))
            (\<lambda>auto_scaling_config_name.
          and_then
            (create_or_update_auto_scaling_config rem auto_scaling_config_name
               min_size max_size max_conc endpoint)
            (\<lambda>auto_scaling_config_arn.
          and_then
            (if truthy (ingress_vpc_configuration settings)
             then lift (json_loads (the (ingress_vpc_configuration settings)))
             else return ())
            (\<lambda>vpc_config.
          try_except
            (and_then
               (if service_truthy existing_service then
                  and_then (subscript (ServiceArn (the existing_service)))
                    (\<lambda>target.
                  and_then (remote_call (UpdateService target) (client_update_service rem target))
                    (\<lambda>service.
                  and_then (subscript (ServiceArn service))
                    (\<lambda>arn.
                  and_then (remote_call (TagResource arn) (client_tag_resource rem arn))
                    (\<lambda>u. return service))))
                else remote_call (CreateService name) (client_create_service rem name))
               (\<lambda>updated_service.
                  return (get_service_operational_state updated_service rgn active_secret_arn)))
            (\<lambda>e. if is_client_or_botocore_error e then raise PipelineEndpointDeploymentError
                  else raise DeployerError)))))))))))"

text \<open>A deployment of the private example settings, and of the public ones.\<close>

definition example_resource_settings :: resource_settings where
  "example_resource_settings =
     \<lparr>cpu_count = Some 1, memory_gb = Some 2, min_replicas = Some 1,
      max_replicas = Some 25, max_concurrency = Some 100\<rparr>"

definition example_deployment :: pipeline_deployment where
  "example_deployment =
     \<lparr>deployment_settings = example_settings,
      deployment_resource_settings = example_resource_settings,
      deployment_image = ''registry/image:2''\<rparr>"

text \<open>The same deployment with the private settings: its service must be replaced.\<close>

definition private_deployment :: pipeline_deployment where
  "private_deployment = example_deployment\<lparr>deployment_settings := private_settings\<rparr>"

section \<open>Reasoning about traces\<close>

text \<open>
  Two properties of a run, used in the proofs: none of its events satisfies \<open>P\<close>, and
  the event \<open>ev\<close> has occurred whenever the run returns. The calls that address the
  App Runner service itself are singled out.
\<close>

definition avoids :: "(event \<Rightarrow> bool) \<Rightarrow> 'a action \<Rightarrow> bool" where
  "avoids P m = (\<forall>ev \<in> set (snd m). \<not> P ev)"

definition reaches :: "event \<Rightarrow> 'a action \<Rightarrow> bool" where
  "reaches ev m = ((\<exists>y. fst m = Inr y) \<longrightarrow> ev \<in> set (snd m))"

fun on_service :: "event \<Rightarrow> bool" where
  "on_service (DeleteService arn) = True"
| "on_service (UpdateService arn) = True"
| "on_service (TagResource arn) = True"
| "on_service (CreateService name) = True"
| "on_service ev = False"

section \<open>Properties of the scaling normalisation\<close>

text \<open>
  C3 (as stated, refuted). The claim says that all three returned values are clamped to
  the platform maxima. The minimum is only floored at 1: a requested minimum of 2000
  replicas is returned as 2000, above the platform ceiling of 1000.
\<close>

theorem scaling_min_not_clamped_counterexample:
  "\<not> (fst (convert_scaling_settings_to_aws_format
              \<lparr>cpu_count = None, memory_gb = None, min_replicas = Some 2000,
               max_replicas = None, max_concurrency = None\<rparr>)
        \<le> AWS_APP_RUNNER_MAX_SIZE)"
  by (simp add: convert_scaling_settings_to_aws_format_def AWS_APP_RUNNER_MAX_SIZE_def)

text \<open>
  C3 (amended). For every combination of optional inputs: the minimum is 1 when absent
  and otherwise the larger of 1 and the request (floored at 1, with no upper clamp, so it
  stays within the platform ceiling exactly when the request does); a maximum of 0 is
  mapped to the platform ceiling 1000, an absent one to the default 25, and the returned
  maximum never exceeds 1000; the returned concurrency is the default 100 when absent and
  never exceeds 1000.
\<close>

theorem scaling_normalisation:
  fixes rs :: resource_settings
  defines "r \<equiv> convert_scaling_settings_to_aws_format rs"
  shows "1 \<le> fst r
       \<and> (min_replicas rs = None \<longrightarrow> fst r = 1)
       \<and> (\<forall>m. min_replicas rs = Some m \<longrightarrow> fst r = max 1 m
              \<and> (fst r \<le> AWS_APP_RUNNER_MAX_SIZE \<longleftrightarrow> m \<le> AWS_APP_RUNNER_MAX_SIZE))
       \<and> (max_replicas rs = Some 0 \<longrightarrow> fst (snd r) = 1000)
       \<and> (max_replicas rs = None \<longrightarrow> fst (snd r) = 25)
       \<and> (\<forall>m. max_replicas rs = Some m \<longrightarrow> m \<noteq> 0 \<longrightarrow>
              fst (snd r) = min m AWS_APP_RUNNER_MAX_SIZE)
       \<and> fst (snd r) \<le> AWS_APP_RUNNER_MAX_SIZE
       \<and> (max_concurrency rs = None \<longrightarrow> snd (snd r) = 100)
       \<and> (\<forall>c. max_concurrency rs = Some c \<longrightarrow>
              snd (snd r) = min c AWS_APP_RUNNER_MAX_CONCURRENCY)
       \<and> snd (snd r) \<le> AWS_APP_RUNNER_MAX_CONCURRENCY"
  unfolding r_def convert_scaling_settings_to_aws_format_def Let_def
    DEFAULT_MIN_SIZE_def DEFAULT_MAX_SIZE_def DEFAULT_MAX_CONCURRENCY_def
    AWS_APP_RUNNER_MAX_SIZE_def AWS_APP_RUNNER_MAX_CONCURRENCY_def
  by (auto split: option.splits)

theorem scaling_normalisation_witness:
  "convert_scaling_settings_to_aws_format
     \<lparr>cpu_count = None, memory_gb = None, min_replicas = Some 0,
      max_replicas = Some 0, max_concurrency = Some 5000\<rparr> = (1, 1000, 1000)"
  using scaling_normalisation
    [of "\<lparr>cpu_count = None, memory_gb = None, min_replicas = Some 0,
          max_replicas = Some 0, max_concurrency = Some 5000\<rparr>"]
  by (simp add: AWS_APP_RUNNER_MAX_SIZE_def AWS_APP_RUNNER_MAX_CONCURRENCY_def prod_eq_iff)

section \<open>Properties of the tier selection\<close>

text \<open>
  The loop returns the labels of the first entry of the table whose score is minimal among
  the entries that meet both requirements, provided that score is below the starting
  \<^verbatim>\<open>best_score\<close>; otherwise it returns the starting \<^verbatim>\<open>best_combination\<close>.
\<close>

lemma select_loop_result:
  "(select_loop rc rm ts bc bs = bc \<and>
      (\<forall>t \<in> set ts. cpu_ok rc t \<and> mem_ok rm t \<longrightarrow> \<not> below (score rc rm t) bs))
   \<or> (\<exists>pre t post. ts = pre @ t # post
         \<and> select_loop rc rm ts bc bs = Some (labels t)
         \<and> cpu_ok rc t \<and> mem_ok rm t \<and> below (score rc rm t) bs
         \<and> (\<forall>u \<in> set pre. cpu_ok rc u \<and> mem_ok rm u \<longrightarrow> score rc rm t < score rc rm u)
         \<and> (\<forall>u \<in> set post. cpu_ok rc u \<and> mem_ok rm u \<longrightarrow> score rc rm t \<le> score rc rm u))"
proof (induction ts arbitrary: bc bs)
  case Nil
  show ?case by simp
next
  case (Cons a ts)
  show ?case
  proof (cases "cpu_ok rc a \<and> mem_ok rm a \<and> below (score rc rm a) bs")
    case True
    from Cons.IH [of "Some (labels a)" "Some (score rc rm a)"]
    show ?thesis
    proof (elim disjE conjE exE)
      assume r: "select_loop rc rm ts (Some (labels a)) (Some (score rc rm a)) = Some (labels a)"
        and n: "\<forall>t\<in>set ts. cpu_ok rc t \<and> mem_ok rm t \<longrightarrow>
                  \<not> below (score rc rm t) (Some (score rc rm a))"
      have "a # ts = [] @ a # ts" by simp
      moreover have "select_loop rc rm (a # ts) bc bs = Some (labels a)"
        using True r by simp
      moreover have "\<forall>u\<in>set ts. cpu_ok rc u \<and> mem_ok rm u \<longrightarrow> score rc rm a \<le> score rc rm u"
        using n by auto
      ultimately show ?thesis using True by (intro disjI2 exI [of _ "[]"] exI [of _ a] exI [of _ ts]) simp
    next
      fix pre t post
      assume d: "ts = pre @ t # post"
        and r: "select_loop rc rm ts (Some (labels a)) (Some (score rc rm a)) = Some (labels t)"
        and ok: "cpu_ok rc t" "mem_ok rm t"
        and b: "below (score rc rm t) (Some (score rc rm a))"
        and p: "\<forall>u\<in>set pre. cpu_ok rc u \<and> mem_ok rm u \<longrightarrow> score rc rm t < score rc rm u"
        and q: "\<forall>u\<in>set post. cpu_ok rc u \<and> mem_ok rm u \<longrightarrow> score rc rm t \<le> score rc rm u"
      have lt: "score rc rm t < score rc rm a" using b by simp
      have "below (score rc rm t) bs"
        using True lt by (cases bs) auto
      moreover have "a # ts = (a # pre) @ t # post" using d by simp
      moreover have "select_loop rc rm (a # ts) bc bs = Some (labels t)"
        using True r by simp
      moreover have "\<forall>u\<in>set (a # pre). cpu_ok rc u \<and> mem_ok rm u \<longrightarrow> score rc rm t < score rc rm u"
        using p lt by simp
      ultimately show ?thesis using ok q
        by (intro disjI2 exI [of _ "a # pre"] exI [of _ t] exI [of _ post]) simp
    qed
  next
    case False
    then have step: "select_loop rc rm (a # ts) bc bs = select_loop rc rm ts bc bs"
      by auto
    from Cons.IH [of bc bs]
    show ?thesis
    proof (elim disjE conjE exE)
      assume "select_loop rc rm ts bc bs = bc"
        and "\<forall>t\<in>set ts. cpu_ok rc t \<and> mem_ok rm t \<longrightarrow> \<not> below (score rc rm t) bs"
      then show ?thesis using False step by auto
    next
      fix pre t post
      assume d: "ts = pre @ t # post"
        and r: "select_loop rc rm ts bc bs = Some (labels t)"
        and ok: "cpu_ok rc t" "mem_ok rm t"
        and b: "below (score rc rm t) bs"
        and p: "\<forall>u\<in>set pre. cpu_ok rc u \<and> mem_ok rm u \<longrightarrow> score rc rm t < score rc rm u"
        and q: "\<forall>u\<in>set post. cpu_ok rc u \<and> mem_ok rm u \<longrightarrow> score rc rm t \<le> score rc rm u"
      have "cpu_ok rc a \<and> mem_ok rm a \<longrightarrow> score rc rm t < score rc rm a"
        using False b by (cases bs) auto
      then have "\<forall>u\<in>set (a # pre). cpu_ok rc u \<and> mem_ok rm u \<longrightarrow> score rc rm t < score rc rm u"
        using p by simp
      moreover have "a # ts = (a # pre) @ t # post" using d by simp
      moreover have "select_loop rc rm (a # ts) bc bs = Some (labels t)"
        using step r by simp
      ultimately show ?thesis using ok q b
        by (intro disjI2 exI [of _ "a # pre"] exI [of _ t] exI [of _ post]) simp
    qed
  qed
qed

lemma distinct_labels:
  "distinct (map (\<lambda>(cpu, cs, mem, ms). (cs, ms)) valid_combinations)"
  by (simp add: valid_combinations_def)

lemma maximum_tier:
  "(4, ''4 vCPU'', 12, ''12 GB'') \<in> set valid_combinations
   \<and> (\<forall>(cpu, cs, mem, ms) \<in> set valid_combinations. cpu \<le> 4 \<and> mem \<le> 12)"
  by (simp add: valid_combinations_def)

text \<open>
  C2. The requests are optional numbers (floats in the source, exact rationals here). A
  tier \<open>(cpu, cs, mem, ms)\<close> of the table meets the requests when \<open>cpu\<close> is at least
  the requested CPU and \<open>mem\<close> at least the requested memory, an absent request being
  met by every tier; its waste is \<open>10 * cpuOverage + memoryOverage\<close>, the overage of an
  absent request being 0.

  With both requests absent the fixed default tier (0.25 vCPU, 0.5 GB) is returned.
  Otherwise, if no tier of the table meets the requests, the maximum tier
  (4 vCPU, 12 GB) is returned; if some tier does, the result is the label pair of a tier
  of the table that meets the requests, whose waste is strictly smaller than that of
  every tier before it in the table that meets them and at most that of every such
  tier after it: the minimum, ties broken by list order. Label pairs identify tiers
  uniquely, (4 vCPU, 12 GB) is in the table and no tier exceeds it in CPU or memory. The
  request (0.3, 0.4) yields (0.5 vCPU, 1 GB).
\<close>

theorem select_tier_correct:
  fixes requested_cpu requested_memory_gb :: "rat option"
  defines "meets \<equiv> (\<lambda>(cpu, cs, mem, ms).
                (\<forall>c. requested_cpu = Some c \<longrightarrow> c \<le> (cpu :: rat))
              \<and> (\<forall>m. requested_memory_gb = Some m \<longrightarrow> m \<le> (mem :: rat)))"
    and "waste \<equiv> (\<lambda>(cpu, cs, mem, ms).
                10 * (case requested_cpu of None \<Rightarrow> 0 | Some c \<Rightarrow> cpu - c)
                + (case requested_memory_gb of None \<Rightarrow> 0 | Some m \<Rightarrow> mem - m))"
  shows
  "select_aws_cpu_memory_combination None None = (''0.25 vCPU'', ''0.5 GB'')
   \<and> (requested_cpu \<noteq> None \<or> requested_memory_gb \<noteq> None \<longrightarrow>
        (if \<exists>t \<in> set valid_combinations. meets t
         then \<exists>pre cpu cs mem ms post.
                valid_combinations = pre @ (cpu, cs, mem, ms) # post
                \<and> select_aws_cpu_memory_combination requested_cpu requested_memory_gb = (cs, ms)
                \<and> meets (cpu, cs, mem, ms)
                \<and> (\<forall>u \<in> set pre. meets u \<longrightarrow> waste (cpu, cs, mem, ms) < waste u)
                \<and> (\<forall>u \<in> set post. meets u \<longrightarrow> waste (cpu, cs, mem, ms) \<le> waste u)
         else select_aws_cpu_memory_combination requested_cpu requested_memory_gb
                = (''4 vCPU'', ''12 GB'')))
   \<and> distinct (map (\<lambda>(cpu, cs, mem, ms). (cs, ms)) valid_combinations)
   \<and> (4, ''4 vCPU'', 12, ''12 GB'') \<in> set valid_combinations
   \<and> (\<forall>(cpu, cs, mem, ms) \<in> set valid_combinations. cpu \<le> 4 \<and> mem \<le> 12)
   \<and> select_aws_cpu_memory_combination (Some (3/10)) (Some (2/5)) = (''0.5 vCPU'', ''1 GB'')"
proof -
  let ?rc = requested_cpu and ?rm = requested_memory_gb
  have m: "meets t = (cpu_ok ?rc t \<and> mem_ok ?rm t)" for t
    unfolding meets_def by (cases t) (auto split: option.splits)
  have w: "waste t = score ?rc ?rm t" for t
    unfolding waste_def by (cases t) (simp add: Let_def)
  have l: "labels t = (case t of (cpu, cs, mem, ms) \<Rightarrow> (cs, ms))" for t
    by (cases t) simp
  have first: "select_aws_cpu_memory_combination None None = (''0.25 vCPU'', ''0.5 GB'')"
    by (simp add: select_aws_cpu_memory_combination_def DEFAULT_CPU_def DEFAULT_MEMORY_def)
  have last: "select_aws_cpu_memory_combination (Some (3/10)) (Some (2/5)) = (''0.5 vCPU'', ''1 GB'')"
    by (simp add: select_aws_cpu_memory_combination_def valid_combinations_def)
  have main: "if \<exists>t \<in> set valid_combinations. meets t
         then \<exists>pre cpu cs mem ms post.
                valid_combinations = pre @ (cpu, cs, mem, ms) # post
                \<and> select_aws_cpu_memory_combination ?rc ?rm = (cs, ms)
                \<and> meets (cpu, cs, mem, ms)
                \<and> (\<forall>u \<in> set pre. meets u \<longrightarrow> waste (cpu, cs, mem, ms) < waste u)
                \<and> (\<forall>u \<in> set post. meets u \<longrightarrow> waste (cpu, cs, mem, ms) \<le> waste u)
         else select_aws_cpu_memory_combination ?rc ?rm = (''4 vCPU'', ''12 GB'')"
    if req: "?rc \<noteq> None \<or> ?rm \<noteq> None"
  proof -
    let ?r = "select_loop ?rc ?rm valid_combinations None None"
    from req have sel: "select_aws_cpu_memory_combination ?rc ?rm =
        (case ?r of None \<Rightarrow> (''4 vCPU'', ''12 GB'') | Some b \<Rightarrow> b)"
      by (auto simp: select_aws_cpu_memory_combination_def)
    from select_loop_result [of ?rc ?rm valid_combinations None None]
    show ?thesis
    proof (elim disjE conjE exE)
      assume "?r = None"
        and "\<forall>t\<in>set valid_combinations. cpu_ok ?rc t \<and> mem_ok ?rm t \<longrightarrow>
               \<not> below (score ?rc ?rm t) None"
      then have "select_aws_cpu_memory_combination ?rc ?rm = (''4 vCPU'', ''12 GB'')"
        and "\<not> (\<exists>t \<in> set valid_combinations. meets t)"
        using sel by (auto simp: m)
      then show ?thesis by (simp only: if_False)
    next
      fix pre t post
      assume d: "valid_combinations = pre @ t # post"
        and r: "?r = Some (labels t)"
        and ok: "cpu_ok ?rc t" "mem_ok ?rm t"
        and p: "\<forall>u\<in>set pre. cpu_ok ?rc u \<and> mem_ok ?rm u \<longrightarrow> score ?rc ?rm t < score ?rc ?rm u"
        and q: "\<forall>u\<in>set post. cpu_ok ?rc u \<and> mem_ok ?rm u \<longrightarrow> score ?rc ?rm t \<le> score ?rc ?rm u"
      obtain cpu cs mem ms where t: "t = (cpu, cs, mem, ms)" by (cases t)
      have "t \<in> set valid_combinations"
        by (simp add: d)
      moreover have mt: "meets t" using ok by (simp add: m)
      ultimately have ex: "\<exists>t \<in> set valid_combinations. meets t"
        by (rule bexI [rotated])
      have res: "select_aws_cpu_memory_combination ?rc ?rm = (cs, ms)"
        using sel r by (simp add: t)
      have p': "\<forall>u \<in> set pre. meets u \<longrightarrow> waste (cpu, cs, mem, ms) < waste u"
        using p by (simp add: m w t [symmetric])
      have q': "\<forall>u \<in> set post. meets u \<longrightarrow> waste (cpu, cs, mem, ms) \<le> waste u"
        using q by (simp add: m w t [symmetric])
      have "\<exists>pre cpu cs mem ms post.
                valid_combinations = pre @ (cpu, cs, mem, ms) # post
                \<and> select_aws_cpu_memory_combination ?rc ?rm = (cs, ms)
                \<and> meets (cpu, cs, mem, ms)
                \<and> (\<forall>u \<in> set pre. meets u \<longrightarrow> waste (cpu, cs, mem, ms) < waste u)
                \<and> (\<forall>u \<in> set post. meets u \<longrightarrow> waste (cpu, cs, mem, ms) \<le> waste u)"
        using d [unfolded t] res mt [unfolded t] p' q' by blast
      then show ?thesis using ex by (simp only: if_True)
    qed
  qed
  show ?thesis
  proof (intro conjI impI)
    show "select_aws_cpu_memory_combination None None = (''0.25 vCPU'', ''0.5 GB'')"
      by (rule first)
  next
    assume "?rc \<noteq> None \<or> ?rm \<noteq> None"
    then show "if \<exists>t \<in> set valid_combinations. meets t
         then \<exists>pre cpu cs mem ms post.
                valid_combinations = pre @ (cpu, cs, mem, ms) # post
                \<and> select_aws_cpu_memory_combination ?rc ?rm = (cs, ms)
                \<and> meets (cpu, cs, mem, ms)
                \<and> (\<forall>u \<in> set pre. meets u \<longrightarrow> waste (cpu, cs, mem, ms) < waste u)
                \<and> (\<forall>u \<in> set post. meets u \<longrightarrow> waste (cpu, cs, mem, ms) \<le> waste u)
         else select_aws_cpu_memory_combination ?rc ?rm = (''4 vCPU'', ''12 GB'')"
      by (rule main)
  next
    show "distinct (map (\<lambda>(cpu, cs, mem, ms). (cs, ms)) valid_combinations)"
      by (rule distinct_labels)
  next
    show "(4, ''4 vCPU'', 12, ''12 GB'') \<in> set valid_combinations"
      by (rule maximum_tier [THEN conjunct1])
  next
    show "\<forall>(cpu, cs, mem, ms) \<in> set valid_combinations. cpu \<le> 4 \<and> mem \<le> 12"
      by (rule maximum_tier [THEN conjunct2])
  next
    show "select_aws_cpu_memory_combination (Some (3/10)) (Some (2/5)) = (''0.5 vCPU'', ''1 GB'')"
      by (rule last)
  qed
qed

text \<open>
  At the request (0.25 vCPU, 13 GB) no tier has enough memory, and the theorem gives the
  maximum tier; at (0.25 vCPU, 12 GB) only (4 vCPU, 12 GB) has enough memory, and the
  theorem gives that tier although its CPU overage is the largest of the table.
\<close>

theorem select_tier_correct_witness:
  "select_aws_cpu_memory_combination (Some (1/4)) (Some 13) = (''4 vCPU'', ''12 GB'')
   \<and> select_aws_cpu_memory_combination (Some (1/4)) (Some 12) = (''4 vCPU'', ''12 GB'')"
proof
  have no: "\<not> (\<exists>t \<in> set valid_combinations.
               case t of (cpu, cs, mem, ms) \<Rightarrow>
                 (\<forall>c. Some (1/4) = Some c \<longrightarrow> c \<le> (cpu :: rat))
               \<and> (\<forall>m. Some 13 = Some m \<longrightarrow> m \<le> (mem :: rat)))"
    by (simp add: valid_combinations_def)
  from select_tier_correct [of "Some (1/4)" "Some 13", THEN conjunct2, THEN conjunct1]
  show "select_aws_cpu_memory_combination (Some (1/4)) (Some 13) = (''4 vCPU'', ''12 GB'')"
    using no by (simp only: if_not_P option.simps simp_thms)
next
  have yes: "\<exists>t \<in> set valid_combinations.
               case t of (cpu, cs, mem, ms) \<Rightarrow>
                 (\<forall>c. Some (1/4) = Some c \<longrightarrow> c \<le> (cpu :: rat))
               \<and> (\<forall>m. Some 12 = Some m \<longrightarrow> m \<le> (mem :: rat))"
    by (simp add: valid_combinations_def)
  have c: "Some (1/4 :: rat) \<noteq> None \<or> Some (12 :: rat) \<noteq> None" by simp
  note u = select_tier_correct [of "Some (1/4)" "Some 12", THEN conjunct2, THEN conjunct1,
      THEN mp, OF c]
  note v = u [unfolded if_P [OF yes]]
  from v obtain pre cpu cs mem ms post
    where d: "valid_combinations = pre @ (cpu, cs, mem, ms) # post"
      and r: "select_aws_cpu_memory_combination (Some (1/4)) (Some 12) = (cs, ms)"
      and h: "case (cpu, cs, mem, ms) of (cpu, cs, mem, ms) \<Rightarrow>
                 (\<forall>c. Some (1/4) = Some c \<longrightarrow> c \<le> (cpu :: rat))
               \<and> (\<forall>m. Some 12 = Some m \<longrightarrow> m \<le> (mem :: rat))"
    by (elim exE conjE) (rule that)
  from h have g: "12 \<le> mem" by simp
  have "(cpu, cs, mem, ms) \<in> set valid_combinations" by (simp add: d)
  then have "(cs, ms) = (''4 vCPU'', ''12 GB'')"
    using g by (auto simp: valid_combinations_def)
  then show "select_aws_cpu_memory_combination (Some (1/4)) (Some 12) = (''4 vCPU'', ''12 GB'')"
    using r by simp
qed

section \<open>Properties of the secret-name sanitiser\<close>

lemma hyphen_not_kept: "\<not> secret_keep CHR ''-''"
  by (simp add: secret_keep_def in_range_def)

lemma no_hyphen_replace: "CHR ''-'' \<notin> set (replace_disallowed name)"
  using hyphen_not_kept by (auto simp: replace_disallowed_def)

lemma set_collapse_slashes: "set (collapse_slashes s) \<subseteq> set s"
  by (induction s rule: collapse_slashes.induct) auto

lemma set_rstrip: "set (rstrip ch s) \<subseteq> set s"
  using set_dropWhileD [of _ "\<lambda>c. c = ch" "rev s"] by (auto simp: rstrip_def)

lemma set_lstrip: "set (lstrip ch s) \<subseteq> set s"
  using set_dropWhileD [of _ "\<lambda>c. c = ch" s] by (auto simp: lstrip_def)

lemma set_strip: "set (strip ch s) \<subseteq> set s"
  unfolding strip_def using set_rstrip set_lstrip by blast

lemma set_slice_to: "set (slice_to xs n) \<subseteq> set xs"
  by (auto simp: slice_to_def dest: in_set_takeD)

lemma sanitize_secret_name_example:
  "sanitize_secret_name ''zenml-my app//x-1/'' ''ab-12cd3'' = Inr ''zenml_my_app/x_1_ab-12cd3''"
  by (simp add: sanitize_secret_name_def suffix_valid_def suffix_char_def in_range_def
      replace_disallowed_def secret_keep_def strip_def lstrip_def rstrip_def)

lemma sanitize_secret_name_body:
  assumes res: "sanitize_secret_name name random_suffix = Inr r"
  shows "\<exists>body. r = body @ ''_'' @ random_suffix \<and> body \<noteq> [] \<and> CHR ''-'' \<notin> set body"
proof -
  define s1 where "s1 = strip CHR ''/'' (collapse_slashes (replace_disallowed name))"
  define m where "m = 512 - int (length random_suffix) - 1"
  define s2 where "s2 = (if int (length s1) > m then rstrip CHR ''/'' (slice_to s1 m) else s1)"
  have unf: "sanitize_secret_name name random_suffix =
      (if \<not> suffix_valid random_suffix then Inl RuntimeError
       else if s1 = [] then Inl ValueError
       else if s2 = [] then Inl ValueError
       else Inr (s2 @ ''_'' @ random_suffix))"
    unfolding sanitize_secret_name_def s1_def s2_def m_def Let_def by (rule refl)
  have r: "r = s2 @ ''_'' @ random_suffix" and ne: "s2 \<noteq> []"
    using res unfolding unf by (simp_all split: if_splits)
  have a: "set s1 \<subseteq> set (replace_disallowed name)"
    unfolding s1_def
    by (rule subset_trans [OF set_strip set_collapse_slashes])
  have b: "set s2 \<subseteq> set s1"
  proof (cases "int (length s1) > m")
    case True
    then have "s2 = rstrip CHR ''/'' (slice_to s1 m)" by (simp add: s2_def)
    then show ?thesis
      by (simp only: subset_trans [OF set_rstrip set_slice_to])
  next
    case False
    then show ?thesis by (simp add: s2_def)
  qed
  have "CHR ''-'' \<notin> set s2"
    using no_hyphen_replace [of name] a b by (meson subsetD)
  then have "r = s2 @ ''_'' @ random_suffix \<and> s2 \<noteq> [] \<and> CHR ''-'' \<notin> set s2"
    using r ne by (intro conjI)
  then show ?thesis by (rule exI)
qed

text \<open>
  C10. The hyphen is not among the characters the substitution keeps (the class reads
  \<^verbatim>\<open>.-/\<close> as the range from the full stop to the slash), so the substitution, which
  preserves length, puts an underscore at every position where the raw name has a hyphen
  and its output contains no hyphen. Whenever the sanitiser returns a name, that name is a
  non-empty body, an underscore and the random suffix, and the body contains no hyphen:
  a hyphen can reach the final name only through the suffix.
\<close>

theorem secret_name_body_has_no_hyphen:
  "\<not> secret_keep CHR ''-''
   \<and> length (replace_disallowed name) = length name
   \<and> (\<forall>i < length name. name ! i = CHR ''-'' \<longrightarrow> replace_disallowed name ! i = CHR ''_'')
   \<and> CHR ''-'' \<notin> set (replace_disallowed name)
   \<and> (\<forall>r. sanitize_secret_name name random_suffix = Inr r \<longrightarrow>
          (\<exists>body. r = body @ ''_'' @ random_suffix \<and> body \<noteq> [] \<and> CHR ''-'' \<notin> set body))"
proof (intro conjI allI impI)
  show "\<not> secret_keep CHR ''-''" by (rule hyphen_not_kept)
  show "length (replace_disallowed name) = length name"
    by (simp add: replace_disallowed_def)
  show "CHR ''-'' \<notin> set (replace_disallowed name)" by (rule no_hyphen_replace)
next
  fix i assume "i < length name" and "name ! i = CHR ''-''"
  then show "replace_disallowed name ! i = CHR ''_''"
    using hyphen_not_kept by (simp add: replace_disallowed_def)
next
  fix r assume "sanitize_secret_name name random_suffix = Inr r"
  then show "\<exists>body. r = body @ ''_'' @ random_suffix \<and> body \<noteq> [] \<and> CHR ''-'' \<notin> set body"
    by (rule sanitize_secret_name_body)
qed

theorem secret_name_body_has_no_hyphen_witness:
  "sanitize_secret_name ''zenml-my app//x-1/'' ''ab-12cd3'' = Inr ''zenml_my_app/x_1_ab-12cd3''
   \<and> (\<exists>body. ''zenml_my_app/x_1_ab-12cd3'' = body @ ''_'' @ ''ab-12cd3''
         \<and> body \<noteq> [] \<and> CHR ''-'' \<notin> set body)"
proof -
  let ?name = "''zenml-my app//x-1/''" and ?suffix = "''ab-12cd3''"
  let ?r = "''zenml_my_app/x_1_ab-12cd3''"
  have ex: "sanitize_secret_name ?name ?suffix = Inr ?r"
    by (rule sanitize_secret_name_example)
  have "\<forall>r. sanitize_secret_name ?name ?suffix = Inr r \<longrightarrow>
          (\<exists>body. r = body @ ''_'' @ ?suffix \<and> body \<noteq> [] \<and> CHR ''-'' \<notin> set body)"
    by (rule secret_name_body_has_no_hyphen
          [of ?name ?suffix, THEN conjunct2, THEN conjunct2, THEN conjunct2, THEN conjunct2])
  then have "sanitize_secret_name ?name ?suffix = Inr ?r \<longrightarrow>
          (\<exists>body. ?r = body @ ''_'' @ ?suffix \<and> body \<noteq> [] \<and> CHR ''-'' \<notin> set body)"
    by (rule spec)
  then have "\<exists>body. ?r = body @ ''_'' @ ?suffix \<and> body \<noteq> [] \<and> CHR ''-'' \<notin> set body"
    using ex by (rule mp)
  with ex show ?thesis by (rule conjI)
qed

section \<open>Properties of the operational state\<close>

lemma operational_state_cases:
  fixes service :: app_runner_service and rgn :: string and secret :: "string option"
  defines "s \<equiv> upper (case Status service of None \<Rightarrow> [] | Some x \<Rightarrow> x)"
  defines "st \<equiv> get_service_operational_state service rgn secret"
  shows "status st =
           (if s = ''CREATE_FAILED'' \<or> s = ''DELETE_FAILED'' then ERROR
            else if s = ''OPERATION_IN_PROGRESS'' then PENDING
            else if s = ''RUNNING'' then RUNNING
            else if s = ''DELETED'' then ABSENT
            else if s = ''PAUSED'' then PENDING
            else UNKNOWN)"
    and "url st =
           (if s = ''RUNNING''
            then (if truthy (ServiceUrl service)
                       \<and> \<not> startswith (the (ServiceUrl service)) ''https://''
                  then Some (''https://'' @ the (ServiceUrl service))
                  else ServiceUrl service)
            else None)"
  unfolding st_def s_def get_service_operational_state_def Let_def
  by simp_all

text \<open>
  C4 (as stated, refuted). A service reported as \<^verbatim>\<open>RUNNING\<close> whose description has
  no \<^verbatim>\<open>ServiceUrl\<close> yields a state with status \<open>RUNNING\<close> and no URL, so a
  non-empty URL is not equivalent to the status being \<open>RUNNING\<close>.
\<close>

theorem running_without_url_counterexample:
  "\<not> (truthy (url (get_service_operational_state
                    (example_service\<lparr>ServiceUrl := None\<rparr>) ''eu-central-1'' None))
        \<longleftrightarrow> status (get_service_operational_state
                      (example_service\<lparr>ServiceUrl := None\<rparr>) ''eu-central-1'' None)
              = RUNNING)"
  by (simp add: get_service_operational_state_def Let_def example_service_def upper_def
      upper_char_def in_range_def)

text \<open>
  C4 (amended). For every service description: a non-empty URL occurs only with status
  \<open>RUNNING\<close>, and every other status (\<open>ERROR\<close>, \<open>PENDING\<close>, \<open>ABSENT\<close>,
  \<open>UNKNOWN\<close>) leaves the URL unset. With status \<open>RUNNING\<close> the URL is taken from
  the remote \<^verbatim>\<open>ServiceUrl\<close>: unset when that is missing, empty when that is empty, and
  otherwise the remote URL with \<^verbatim>\<open>https://\<close> put in front unless it already starts
  with it, hence non-empty and starting with the scheme.
\<close>

theorem url_only_when_running:
  fixes service :: app_runner_service and rgn :: string and secret :: "string option"
  defines "st \<equiv> get_service_operational_state service rgn secret"
  shows "(truthy (url st) \<longrightarrow> status st = RUNNING)
       \<and> (status st \<noteq> RUNNING \<longrightarrow> url st = None)
       \<and> (status st = RUNNING \<longrightarrow>
            (case ServiceUrl service of
               None \<Rightarrow> url st = None
             | Some u \<Rightarrow>
                 if u = [] then url st = Some []
                 else url st = Some (if startswith u ''https://'' then u else ''https://'' @ u)
                      \<and> truthy (url st) \<and> startswith (the (url st)) ''https://''))"
proof -
  define s where "s = upper (case Status service of None \<Rightarrow> [] | Some x \<Rightarrow> x)"
  have st: "status st =
           (if s = ''CREATE_FAILED'' \<or> s = ''DELETE_FAILED'' then ERROR
            else if s = ''OPERATION_IN_PROGRESS'' then PENDING
            else if s = ''RUNNING'' then RUNNING
            else if s = ''DELETED'' then ABSENT
            else if s = ''PAUSED'' then PENDING
            else UNKNOWN)"
    unfolding st_def s_def by (rule operational_state_cases(1))
  have u: "url st =
           (if s = ''RUNNING''
            then (if truthy (ServiceUrl service)
                       \<and> \<not> startswith (the (ServiceUrl service)) ''https://''
                  then Some (''https://'' @ the (ServiceUrl service))
                  else ServiceUrl service)
            else None)"
    unfolding st_def s_def by (rule operational_state_cases(2))
  have run: "status st = RUNNING \<longleftrightarrow> s = ''RUNNING''"
    unfolding st by simp
  have c1: "status st \<noteq> RUNNING \<longrightarrow> url st = None"
    unfolding run u by simp
  have c0: "truthy (url st) \<longrightarrow> status st = RUNNING"
  proof
    assume t: "truthy (url st)"
    show "status st = RUNNING"
    proof (rule ccontr)
      assume "status st \<noteq> RUNNING"
      with c1 have "url st = None" by simp
      with t show False by simp
    qed
  qed
  have c2: "status st = RUNNING \<longrightarrow>
            (case ServiceUrl service of
               None \<Rightarrow> url st = None
             | Some u \<Rightarrow>
                 if u = [] then url st = Some []
                 else url st = Some (if startswith u ''https://'' then u else ''https://'' @ u)
                      \<and> truthy (url st) \<and> startswith (the (url st)) ''https://'')"
  proof
    assume "status st = RUNNING"
    then have r: "s = ''RUNNING''" by (simp only: run)
    show "case ServiceUrl service of
               None \<Rightarrow> url st = None
             | Some u \<Rightarrow>
                 if u = [] then url st = Some []
                 else url st = Some (if startswith u ''https://'' then u else ''https://'' @ u)
                      \<and> truthy (url st) \<and> startswith (the (url st)) ''https://''"
    proof (cases "ServiceUrl service")
      case None
      then show ?thesis unfolding u using r by simp
    next
      case (Some v)
      then show ?thesis unfolding u using r by (simp add: startswith_def)
    qed
  qed
  from c0 c1 c2 show ?thesis by (intro conjI)
qed

text \<open>
  At the running example service, whose remote URL carries no scheme, the state is
  \<open>RUNNING\<close> with the prefixed URL; once the service is reported as deleted, the URL
  is unset.
\<close>

theorem url_only_when_running_witness:
  "status (get_service_operational_state example_service ''eu-central-1'' None) = RUNNING
   \<and> url (get_service_operational_state example_service ''eu-central-1'' None)
       = Some ''https://abc.awsapprunner.com''
   \<and> url (get_service_operational_state
             (example_service\<lparr>Status := Some ''DELETED''\<rparr>) ''eu-central-1'' None) = None"
proof -
  let ?st = "get_service_operational_state example_service ''eu-central-1'' None"
  let ?del = "get_service_operational_state
                (example_service\<lparr>Status := Some ''DELETED''\<rparr>) ''eu-central-1'' None"
  have r: "status ?st = RUNNING"
    by (simp add: get_service_operational_state_def Let_def example_service_def upper_def
        upper_char_def in_range_def)
  have d: "status ?del \<noteq> RUNNING"
    by (simp add: get_service_operational_state_def Let_def example_service_def upper_def
        upper_char_def in_range_def)
  have su: "ServiceUrl example_service = Some ''abc.awsapprunner.com''"
    by (simp add: example_service_def)
  have "url ?st = Some ''https://abc.awsapprunner.com''"
    using url_only_when_running [of example_service "''eu-central-1''" None,
        THEN conjunct2, THEN conjunct2] r su
    by (simp add: startswith_def)
  moreover have "url ?del = None"
    using url_only_when_running
      [of "example_service\<lparr>Status := Some ''DELETED''\<rparr>" "''eu-central-1''" None,
        THEN conjunct2, THEN conjunct1] d
    by simp
  ultimately show ?thesis using r by (intro conjI)
qed

section \<open>The methods by cases\<close>

lemmas action_defs =
  return_def raise_def and_then_def try_except_def remote_call_def log_warning_def lift_def

text \<open>
  The method by cases on the recorded ARN and on the response to its lookup.
\<close>

lemma create_or_update_auto_scaling_config_cases:
  fixes rem :: remote and endpoint :: pipeline_endpoint
    and config_name :: string and min_size max_size max_conc :: int
  defines "recorded \<equiv> auto_scaling_configuration_arn (endpoint_metadata endpoint)"
    and "arn \<equiv> the (auto_scaling_configuration_arn (endpoint_metadata endpoint))"
  defines "created \<equiv>
      (case client_create_auto_scaling_configuration rem config_name max_conc max_size min_size of
         Inl e \<Rightarrow> Inl (if is_client_or_botocore_error e then DeployerError else e)
       | Inr new_arn \<Rightarrow> Inr new_arn)"
    and "creation \<equiv> CreateAutoScalingConfiguration config_name max_conc max_size min_size"
  shows "create_or_update_auto_scaling_config rem config_name min_size max_size max_conc endpoint =
     (if recorded = None \<or> recorded = Some [] then (created, [creation])
      else case client_describe_auto_scaling_configuration rem arn of
             Inr (MaxConcurrency, MaxSize, MinSize) \<Rightarrow>
               if MaxConcurrency = max_conc \<and> MaxSize = max_size \<and> MinSize = min_size
               then (Inr arn, [DescribeAutoScalingConfiguration arn])
               else (created, [DescribeAutoScalingConfiguration arn, creation])
           | Inl e \<Rightarrow>
               if e = ClientError ''InvalidRequestException''
               then (created, [DescribeAutoScalingConfiguration arn, creation])
               else (Inl (if is_client_or_botocore_error e then DeployerError else e),
                     [DescribeAutoScalingConfiguration arn]))"
proof (cases "recorded = None \<or> recorded = Some []")
  case True
  then have "\<not> truthy (get_auto_scaling_config_arn endpoint)"
    by (auto simp: recorded_def get_auto_scaling_config_arn_def)
  then show ?thesis
    using True
    by (simp add: create_or_update_auto_scaling_config_def action_defs created_def
        creation_def split: sum.splits)
next
  case False
  then have t: "truthy (get_auto_scaling_config_arn endpoint)"
    and a: "the (get_auto_scaling_config_arn endpoint) = arn"
    and s: "get_auto_scaling_config_arn endpoint = Some arn"
    by (auto simp: recorded_def arn_def get_auto_scaling_config_arn_def)
  show ?thesis
  proof (cases "client_describe_auto_scaling_configuration rem arn")
    case (Inr cfg)
    obtain mc mx mn where cfg: "cfg = (mc, mx, mn)" by (cases cfg)
    show ?thesis
      using False t a s Inr cfg
      by (simp add: create_or_update_auto_scaling_config_def action_defs created_def
          creation_def split: sum.splits)
  next
    case (Inl e)
    show ?thesis
      using False t a s Inl
      by (cases e)
         (simp_all add: create_or_update_auto_scaling_config_def action_defs created_def
            creation_def split: sum.splits)
  qed
qed

section \<open>Properties of the auto-scaling configuration\<close>

text \<open>
  C7. Let the endpoint's metadata record the non-empty reference \<open>arn\<close> of an
  auto-scaling configuration, and let the lookup of \<open>arn\<close> succeed. If the values found
  equal the desired (maximum concurrency, maximum size, minimum size), the method returns
  \<open>arn\<close> itself and its only remote call is that lookup: no configuration is created. If
  they differ, the lookup is followed by exactly one creation, with the desired values.
\<close>

theorem scaling_policy_idempotent:
  "(auto_scaling_configuration_arn (endpoint_metadata endpoint) = Some arn \<and> arn \<noteq> []
      \<and> client_describe_auto_scaling_configuration rem arn = Inr (max_conc, max_size, min_size)
    \<longrightarrow> create_or_update_auto_scaling_config rem config_name min_size max_size max_conc endpoint
          = (Inr arn, [DescribeAutoScalingConfiguration arn]))
   \<and> (auto_scaling_configuration_arn (endpoint_metadata endpoint) = Some arn \<and> arn \<noteq> []
      \<and> client_describe_auto_scaling_configuration rem arn = Inr (found_conc, found_max, found_min)
      \<and> (found_conc, found_max, found_min) \<noteq> (max_conc, max_size, min_size)
    \<longrightarrow> snd (create_or_update_auto_scaling_config rem config_name min_size max_size max_conc
               endpoint)
          = [DescribeAutoScalingConfiguration arn,
             CreateAutoScalingConfiguration config_name max_conc max_size min_size])"
proof (intro conjI impI)
  assume "auto_scaling_configuration_arn (endpoint_metadata endpoint) = Some arn \<and> arn \<noteq> []
      \<and> client_describe_auto_scaling_configuration rem arn = Inr (max_conc, max_size, min_size)"
  then show "create_or_update_auto_scaling_config rem config_name min_size max_size max_conc endpoint
          = (Inr arn, [DescribeAutoScalingConfiguration arn])"
    by (simp add: create_or_update_auto_scaling_config_cases)
next
  assume "auto_scaling_configuration_arn (endpoint_metadata endpoint) = Some arn \<and> arn \<noteq> []
      \<and> client_describe_auto_scaling_configuration rem arn = Inr (found_conc, found_max, found_min)
      \<and> (found_conc, found_max, found_min) \<noteq> (max_conc, max_size, min_size)"
  then show "snd (create_or_update_auto_scaling_config rem config_name min_size max_size max_conc
               endpoint)
          = [DescribeAutoScalingConfiguration arn,
             CreateAutoScalingConfiguration config_name max_conc max_size min_size]"
    by (auto simp: create_or_update_auto_scaling_config_cases)
qed

text \<open>
  The example endpoint records \<open>arn:autoscaling/1\<close>, which the remote side resolves to
  (100, 25, 1). Asking for these values returns the recorded reference after the lookup
  alone; asking for a maximum of 50 instances creates a configuration.
\<close>

theorem scaling_policy_idempotent_witness:
  "create_or_update_auto_scaling_config example_remote ''zenml-my-endpoint-123e4567''
       1 25 100 example_endpoint
     = (Inr ''arn:autoscaling/1'', [DescribeAutoScalingConfiguration ''arn:autoscaling/1''])
   \<and> snd (create_or_update_auto_scaling_config example_remote ''zenml-my-endpoint-123e4567''
            1 50 100 example_endpoint)
     = [DescribeAutoScalingConfiguration ''arn:autoscaling/1'',
        CreateAutoScalingConfiguration ''zenml-my-endpoint-123e4567'' 100 50 1]"
proof
  have h: "auto_scaling_configuration_arn (endpoint_metadata example_endpoint)
             = Some ''arn:autoscaling/1'' \<and> ''arn:autoscaling/1'' \<noteq> []
           \<and> client_describe_auto_scaling_configuration example_remote ''arn:autoscaling/1''
             = Inr (100, 25, 1)"
    by (simp add: example_endpoint_def example_remote_def)
  show "create_or_update_auto_scaling_config example_remote ''zenml-my-endpoint-123e4567''
       1 25 100 example_endpoint
     = (Inr ''arn:autoscaling/1'', [DescribeAutoScalingConfiguration ''arn:autoscaling/1''])"
    by (rule scaling_policy_idempotent
        [where endpoint = example_endpoint and rem = example_remote
           and arn = "''arn:autoscaling/1''" and max_conc = 100 and max_size = 25
           and min_size = 1,
         THEN conjunct1, THEN mp, OF h])
next
  have h: "auto_scaling_configuration_arn (endpoint_metadata example_endpoint)
             = Some ''arn:autoscaling/1'' \<and> ''arn:autoscaling/1'' \<noteq> []
           \<and> client_describe_auto_scaling_configuration example_remote ''arn:autoscaling/1''
             = Inr (100, 25, 1)
           \<and> (100, 25, 1) \<noteq> (100 :: int, 50 :: int, 1 :: int)"
    by (simp add: example_endpoint_def example_remote_def)
  show "snd (create_or_update_auto_scaling_config example_remote ''zenml-my-endpoint-123e4567''
            1 50 100 example_endpoint)
     = [DescribeAutoScalingConfiguration ''arn:autoscaling/1'',
        CreateAutoScalingConfiguration ''zenml-my-endpoint-123e4567'' 100 50 1]"
    by (rule scaling_policy_idempotent
        [where endpoint = example_endpoint and rem = example_remote
           and arn = "''arn:autoscaling/1''" and max_conc = 100 and max_size = 50
           and min_size = 1 and found_conc = 100 and found_max = 25 and found_min = 1,
         THEN conjunct2, THEN mp, OF h])
qed

section \<open>Properties of deprovisioning\<close>

text \<open>The clean-up of the secret and of the auto-scaling configuration, by cases.\<close>

lemma get_secret_arn_cases:
  "get_secret_arn rem endpoint =
     (let recorded = secret_arn (endpoint_metadata endpoint)
      in if recorded = None \<or> recorded = Some [] then (Inr None, [])
         else case client_describe_secret rem (the recorded) of
                Inr u \<Rightarrow> (Inr recorded, [DescribeSecret (the recorded)])
              | Inl (ClientError code) \<Rightarrow> (Inr None, [DescribeSecret (the recorded)])
              | Inl e \<Rightarrow> (Inl e, [DescribeSecret (the recorded)]))"
proof (cases "secret_arn (endpoint_metadata endpoint)")
  case None
  then show ?thesis by (simp add: get_secret_arn_def action_defs Let_def)
next
  case (Some a)
  show ?thesis
  proof (cases "client_describe_secret rem a")
    case (Inr u)
    then show ?thesis using Some by (simp add: get_secret_arn_def action_defs Let_def)
  next
    case (Inl e)
    then show ?thesis using Some by (cases e) (simp_all add: get_secret_arn_def action_defs Let_def)
  qed
qed

lemma delete_secret_cases:
  "delete_secret rem arn =
     (case client_delete_secret rem arn of
        Inr u \<Rightarrow> (Inr (), [DeleteSecret arn])
      | Inl (ClientError code) \<Rightarrow> (Inr (), [DeleteSecret arn])
      | Inl e \<Rightarrow> (Inl e, [DeleteSecret arn]))"
proof (cases "client_delete_secret rem arn")
  case (Inr u)
  then show ?thesis by (simp add: delete_secret_def action_defs)
next
  case (Inl e)
  then show ?thesis by (cases e) (simp_all add: delete_secret_def action_defs)
qed

text \<open>
  The method by cases on the recorded ARN and on the responses of the remote side; the
  clean-up appears in the last case only.
\<close>

lemma do_deprovision_pipeline_endpoint_cases:
  fixes rem :: remote and endpoint :: pipeline_endpoint and timeout :: int
    and poll :: "pipeline_endpoint \<Rightarrow> pipeline_endpoint_status \<Rightarrow> int \<Rightarrow> error + operational_state"
  defines "recorded \<equiv> service_arn (endpoint_metadata endpoint)"
    and "arn \<equiv> the (service_arn (endpoint_metadata endpoint))"
    and "cleaning \<equiv> and_then (cleanup_endpoint_secrets rem endpoint)
                       (\<lambda>u. cleanup_endpoint_auto_scaling_config rem endpoint)"
  shows "do_deprovision_pipeline_endpoint rem poll endpoint timeout =
     (if recorded = None \<or> recorded = Some [] then (Inl PipelineEndpointNotFoundError, [])
      else case client_describe_service rem arn of
             Inl e \<Rightarrow>
               (Inl (if e = ClientError ''ResourceNotFoundException''
                     then PipelineEndpointNotFoundError else e),
                [DescribeService arn])
           | Inr svc \<Rightarrow>
               (case client_delete_service rem arn of
                  Inl e \<Rightarrow>
                    (Inl (case e of
                            ClientError code \<Rightarrow>
                              if code = ''ResourceNotFoundException''
                              then PipelineEndpointNotFoundError
                              else PipelineEndpointDeprovisionError
                          | _ \<Rightarrow> DeployerError),
                     [DescribeService arn, DeleteService arn])
                | Inr u \<Rightarrow>
                    (case poll endpoint ABSENT timeout of
                       Inl e \<Rightarrow> (Inl e, [DescribeService arn, DeleteService arn, PollEndpoint])
                     | Inr st \<Rightarrow>
                         if status st \<noteq> ABSENT
                         then (Inr (Some st),
                               [DescribeService arn, DeleteService arn, PollEndpoint])
                         else (case fst cleaning of
                                 Inl e \<Rightarrow> Inl DeployerError
                               | Inr u \<Rightarrow> Inr None,
                               [DescribeService arn, DeleteService arn, PollEndpoint]
                                 @ snd cleaning))))"
proof (cases "recorded = None \<or> recorded = Some []")
  case True
  then have "\<not> truthy (service_arn (endpoint_metadata endpoint))"
    by (auto simp: recorded_def)
  then show ?thesis
    using True
    by (simp add: do_deprovision_pipeline_endpoint_def get_app_runner_service_def action_defs Let_def)
next
  case False
  then have t: "truthy (service_arn (endpoint_metadata endpoint))"
    by (cases "service_arn (endpoint_metadata endpoint)") (auto simp: recorded_def)
  have a: "the (service_arn (endpoint_metadata endpoint)) = arn"
    by (simp add: arn_def)
  show ?thesis
  proof (cases "client_describe_service rem arn")
    case (Inl e)
    then show ?thesis
      using False t a
      by (cases e)
         (simp_all add: do_deprovision_pipeline_endpoint_def get_app_runner_service_def
            action_defs Let_def)
  next
    case svc: (Inr svc)
    have g: "get_app_runner_service rem endpoint = (Inr (Some svc), [DescribeService arn])"
      using t a svc by (simp add: get_app_runner_service_def action_defs Let_def)
    show ?thesis
    proof (cases "client_delete_service rem arn")
      case (Inl e)
      then show ?thesis
        using False t a svc g
        by (cases e)
           (simp_all add: do_deprovision_pipeline_endpoint_def action_defs Let_def)
    next
      case del: (Inr u)
      show ?thesis
      proof (cases "poll endpoint ABSENT timeout")
        case (Inl e)
        then show ?thesis
          using False t a svc g del
          by (simp add: do_deprovision_pipeline_endpoint_def action_defs Let_def)
      next
        case (Inr st)
        obtain r tr where c: "cleaning = (r, tr)" by (cases cleaning)
        show ?thesis
          using False t a svc g del Inr c [unfolded cleaning_def]
          by (cases r)
             (simp_all add: do_deprovision_pipeline_endpoint_def action_defs Let_def cleaning_def)
      qed
    qed
  qed
qed

text \<open>
  C5. A clean-up event is a remote call on the endpoint's secret (its lookup or its
  deletion) or the deletion of its auto-scaling configuration. In every run of the
  method, a clean-up event is preceded in the trace by the deletion of the service and by
  the polling, and the polling has ended with the status \<open>ABSENT\<close>. If the polling
  ends with any other status, the trace holds no clean-up event, and a run that has
  reached the polling returns the state the polling observed; in particular, after the
  service was found and its deletion accepted, the run consists of the lookup, the
  deletion and the polling, and returns that state. If the polling ends with \<open>ABSENT\<close>
  and the recorded secret and auto-scaling configuration exist, both are deleted after
  the polling and the method returns \<^verbatim>\<open>None\<close>.
\<close>

theorem deprovision_cleanup_after_absent:
  fixes rem :: remote and endpoint :: pipeline_endpoint and timeout :: int
    and poll :: "pipeline_endpoint \<Rightarrow> pipeline_endpoint_status \<Rightarrow> int \<Rightarrow> error + operational_state"
  defines "run \<equiv> do_deprovision_pipeline_endpoint rem poll endpoint timeout"
    and "cleanup \<equiv> (\<lambda>ev. \<exists>a. ev = DescribeSecret a \<or> ev = DeleteSecret a
                           \<or> ev = DeleteAutoScalingConfiguration a)"
  shows
  "(snd run = pre @ ev # post \<and> cleanup ev \<longrightarrow>
      PollEndpoint \<in> set pre
      \<and> (\<exists>a. DeleteService a \<in> set pre)
      \<and> (\<exists>st. poll endpoint ABSENT timeout = Inr st \<and> status st = ABSENT))
   \<and> (poll endpoint ABSENT timeout = Inr st \<and> status st \<noteq> ABSENT \<longrightarrow>
        (\<forall>ev \<in> set (snd run). \<not> cleanup ev)
        \<and> (PollEndpoint \<in> set (snd run) \<longrightarrow> fst run = Inr (Some st)))
   \<and> (service_arn (endpoint_metadata endpoint) = Some arn \<and> arn \<noteq> []
        \<and> client_describe_service rem arn = Inr svc
        \<and> client_delete_service rem arn = Inr ()
        \<and> poll endpoint ABSENT timeout = Inr st \<and> status st \<noteq> ABSENT \<longrightarrow>
        run = (Inr (Some st), [DescribeService arn, DeleteService arn, PollEndpoint]))
   \<and> (service_arn (endpoint_metadata endpoint) = Some arn \<and> arn \<noteq> []
        \<and> client_describe_service rem arn = Inr svc
        \<and> client_delete_service rem arn = Inr ()
        \<and> poll endpoint ABSENT timeout = Inr st \<and> status st = ABSENT
        \<and> secret_arn (endpoint_metadata endpoint) = Some secret \<and> secret \<noteq> []
        \<and> client_describe_secret rem secret = Inr ()
        \<and> client_delete_secret rem secret = Inr ()
        \<and> auto_scaling_configuration_arn (endpoint_metadata endpoint) = Some config
        \<and> config \<noteq> []
        \<and> client_delete_auto_scaling_configuration rem config = Inr () \<longrightarrow>
        run = (Inr None,
               [DescribeService arn, DeleteService arn, PollEndpoint,
                DescribeSecret secret, DeleteSecret secret,
                DeleteAutoScalingConfiguration config]))"
proof -
  note cases = do_deprovision_pipeline_endpoint_cases [of rem poll endpoint timeout]
  let ?arn = "the (service_arn (endpoint_metadata endpoint))"
  let ?head = "[DescribeService ?arn, DeleteService ?arn, PollEndpoint]"
  have nc: "\<not> cleanup (DescribeService a)" "\<not> cleanup (DeleteService a)"
    "\<not> cleanup PollEndpoint" for a
    by (simp_all add: cleanup_def)
  have short: "set (snd run) \<subseteq> set ?head \<or>
     ((\<exists>st. poll endpoint ABSENT timeout = Inr st \<and> status st = ABSENT)
       \<and> (\<exists>rest. snd run = ?head @ rest))"
    unfolding run_def cases
    by (auto split: sum.splits if_splits)
  have first: "PollEndpoint \<in> set pre \<and> (\<exists>a. DeleteService a \<in> set pre)
      \<and> (\<exists>st. poll endpoint ABSENT timeout = Inr st \<and> status st = ABSENT)"
    if d: "snd run = pre @ ev # post" and c: "cleanup ev"
  proof -
    have "ev \<in> set (snd run)" by (simp add: d)
    then have "\<not> set (snd run) \<subseteq> set ?head"
      using c nc by auto
    with short obtain st rest
      where p: "poll endpoint ABSENT timeout = Inr st \<and> status st = ABSENT"
        and r: "snd run = ?head @ rest"
      by blast
    from d r have e: "pre @ ev # post = DescribeService ?arn # DeleteService ?arn # PollEndpoint # rest"
      by simp
    from e c nc obtain p1 where p1: "pre = DescribeService ?arn # p1"
      and e1: "p1 @ ev # post = DeleteService ?arn # PollEndpoint # rest"
      by (cases pre) auto
    from e1 c nc obtain p2 where p2: "p1 = DeleteService ?arn # p2"
      and e2: "p2 @ ev # post = PollEndpoint # rest"
      by (cases p1) auto
    from e2 c nc obtain p3 where p3: "p2 = PollEndpoint # p3"
      by (cases p2) auto
    have "PollEndpoint \<in> set pre" by (simp add: p1 p2 p3)
    moreover have "DeleteService ?arn \<in> set pre" by (simp add: p1 p2)
    ultimately show ?thesis using p by blast
  qed
  have second: "(\<forall>ev \<in> set (snd run). \<not> cleanup ev)
        \<and> (PollEndpoint \<in> set (snd run) \<longrightarrow> fst run = Inr (Some st))"
    if p: "poll endpoint ABSENT timeout = Inr st" and n: "status st \<noteq> ABSENT"
  proof
    from short p n have "set (snd run) \<subseteq> set ?head" by auto
    then show "\<forall>ev \<in> set (snd run). \<not> cleanup ev"
      using nc by auto
    show "PollEndpoint \<in> set (snd run) \<longrightarrow> fst run = Inr (Some st)"
      unfolding run_def cases using p n
      by (auto split: sum.splits if_splits)
  qed
  have third: "run = (Inr (Some st), [DescribeService arn, DeleteService arn, PollEndpoint])"
    if "service_arn (endpoint_metadata endpoint) = Some arn" "arn \<noteq> []"
      "client_describe_service rem arn = Inr svc" "client_delete_service rem arn = Inr ()"
      "poll endpoint ABSENT timeout = Inr st" "status st \<noteq> ABSENT"
    unfolding run_def cases using that by simp
  have fourth: "run = (Inr None,
               [DescribeService arn, DeleteService arn, PollEndpoint,
                DescribeSecret secret, DeleteSecret secret,
                DeleteAutoScalingConfiguration config])"
    if "service_arn (endpoint_metadata endpoint) = Some arn" "arn \<noteq> []"
      "client_describe_service rem arn = Inr svc" "client_delete_service rem arn = Inr ()"
      "poll endpoint ABSENT timeout = Inr st" "status st = ABSENT"
      "secret_arn (endpoint_metadata endpoint) = Some secret" "secret \<noteq> []"
      "client_describe_secret rem secret = Inr ()" "client_delete_secret rem secret = Inr ()"
      "auto_scaling_configuration_arn (endpoint_metadata endpoint) = Some config"
      "config \<noteq> []" "client_delete_auto_scaling_configuration rem config = Inr ()"
  proof -
    have "and_then (cleanup_endpoint_secrets rem endpoint)
            (\<lambda>u. cleanup_endpoint_auto_scaling_config rem endpoint)
          = (Inr (), [DescribeSecret secret, DeleteSecret secret,
                      DeleteAutoScalingConfiguration config])"
      using that
      by (simp add: cleanup_endpoint_secrets_def get_secret_arn_cases delete_secret_cases
          cleanup_endpoint_auto_scaling_config_def get_auto_scaling_config_arn_def
          action_defs Let_def)
    then show ?thesis
      unfolding run_def cases using that by simp
  qed
  show ?thesis
    using first second third fourth by (intro conjI impI) blast+
qed

text \<open>
  Deprovisioning the example endpoint. While the polling still observes a pending
  service, the observed state is returned and neither the secret nor the auto-scaling
  configuration is touched; once it observes the absence, both are deleted, after the
  polling.
\<close>

theorem deprovision_cleanup_after_absent_witness:
  "do_deprovision_pipeline_endpoint example_remote (\<lambda>e s t. Inr example_pending_state)
       example_endpoint 300
     = (Inr (Some example_pending_state),
        [DescribeService ''arn:service'', DeleteService ''arn:service'', PollEndpoint])
   \<and> do_deprovision_pipeline_endpoint example_remote (\<lambda>e s t. Inr example_absent_state)
       example_endpoint 300
     = (Inr None,
        [DescribeService ''arn:service'', DeleteService ''arn:service'', PollEndpoint,
         DescribeSecret ''arn:secret/old'', DeleteSecret ''arn:secret/old'',
         DeleteAutoScalingConfiguration ''arn:autoscaling/1''])"
proof
  have h: "service_arn (endpoint_metadata example_endpoint) = Some ''arn:service''
        \<and> ''arn:service'' \<noteq> []
        \<and> client_describe_service example_remote ''arn:service'' = Inr example_service
        \<and> client_delete_service example_remote ''arn:service'' = Inr ()
        \<and> (\<lambda>e s t. Inr example_pending_state) example_endpoint ABSENT 300
            = (Inr example_pending_state :: error + operational_state)
        \<and> status example_pending_state \<noteq> ABSENT"
    by (simp add: example_endpoint_def example_remote_def example_pending_state_def)
  show "do_deprovision_pipeline_endpoint example_remote (\<lambda>e s t. Inr example_pending_state)
       example_endpoint 300
     = (Inr (Some example_pending_state),
        [DescribeService ''arn:service'', DeleteService ''arn:service'', PollEndpoint])"
    by (rule deprovision_cleanup_after_absent
        [where rem = example_remote and poll = "\<lambda>e s t. Inr example_pending_state"
           and endpoint = example_endpoint and timeout = 300
           and arn = "''arn:service''" and svc = example_service
           and st = example_pending_state,
         THEN conjunct2, THEN conjunct2, THEN conjunct1, THEN mp, OF h])
next
  have h: "service_arn (endpoint_metadata example_endpoint) = Some ''arn:service''
        \<and> ''arn:service'' \<noteq> []
        \<and> client_describe_service example_remote ''arn:service'' = Inr example_service
        \<and> client_delete_service example_remote ''arn:service'' = Inr ()
        \<and> (\<lambda>e s t. Inr example_absent_state) example_endpoint ABSENT 300
            = (Inr example_absent_state :: error + operational_state)
        \<and> status example_absent_state = ABSENT
        \<and> secret_arn (endpoint_metadata example_endpoint) = Some ''arn:secret/old''
        \<and> ''arn:secret/old'' \<noteq> []
        \<and> client_describe_secret example_remote ''arn:secret/old'' = Inr ()
        \<and> client_delete_secret example_remote ''arn:secret/old'' = Inr ()
        \<and> auto_scaling_configuration_arn (endpoint_metadata example_endpoint)
            = Some ''arn:autoscaling/1''
        \<and> ''arn:autoscaling/1'' \<noteq> []
        \<and> client_delete_auto_scaling_configuration example_remote ''arn:autoscaling/1''
            = Inr ()"
    by (simp add: example_endpoint_def example_remote_def example_absent_state_def)
  show "do_deprovision_pipeline_endpoint example_remote (\<lambda>e s t. Inr example_absent_state)
       example_endpoint 300
     = (Inr None,
        [DescribeService ''arn:service'', DeleteService ''arn:service'', PollEndpoint,
         DescribeSecret ''arn:secret/old'', DeleteSecret ''arn:secret/old'',
         DeleteAutoScalingConfiguration ''arn:autoscaling/1''])"
    by (rule deprovision_cleanup_after_absent
        [where rem = example_remote and poll = "\<lambda>e s t. Inr example_absent_state"
           and endpoint = example_endpoint and timeout = 300
           and arn = "''arn:service''" and svc = example_service
           and st = example_absent_state and secret = "''arn:secret/old''"
           and config = "''arn:autoscaling/1''",
         THEN conjunct2, THEN conjunct2, THEN conjunct2, THEN mp, OF h])
qed

section \<open>Properties of the preparation of environment variables\<close>

lemma example_secret_name:
  "get_secret_name ''my-endpoint'' ''123e4567-e89b-12d3-a456-426614174000'' ''zenml-''
     = Inr ''zenml_my_endpoint_123e4567''"
  by (simp add: get_secret_name_def sanitize_secret_name_def Let_def suffix_valid_def
      suffix_char_def in_range_def replace_disallowed_def secret_keep_def strip_def
      lstrip_def rstrip_def slice_to_def)

text \<open>
  C6. With Secrets Manager out of reach, storing the secret fails, a warning is logged
  and the secrets are added to the environment variables. For a fresh endpoint the
  method then returns them. For an endpoint whose metadata records a secret from an
  earlier deployment, the method goes on to look that secret up; the lookup fails with
  \<^verbatim>\<open>BotoCoreError\<close>, which \<^verbatim>\<open>_get_secret_arn\<close> does not handle, and the method
  raises it instead of returning the environment variables.
\<close>

theorem fallback_fails_with_recorded_secret:
  "prepare_environment_variables secrets_manager_unreachable fresh_endpoint
       Map.empty example_secrets example_settings
     = (Inr (example_secrets, Map.empty, None),
        [UpdateSecret ''zenml_my_endpoint_123e4567'', Warning])
   \<and> prepare_environment_variables secrets_manager_unreachable example_endpoint
       Map.empty example_secrets example_settings
     = (Inl BotoCoreError,
        [UpdateSecret ''zenml_my_endpoint_123e4567'', Warning,
         DescribeSecret ''arn:secret/old''])"
proof
  have n: "get_secret_name (endpoint_name fresh_endpoint) (endpoint_id fresh_endpoint)
             (secret_name_prefix example_settings) = Inr ''zenml_my_endpoint_123e4567''"
    using example_secret_name by (simp add: fresh_endpoint_def example_settings_def)
  show "prepare_environment_variables secrets_manager_unreachable fresh_endpoint
       Map.empty example_secrets example_settings
     = (Inr (example_secrets, Map.empty, None),
        [UpdateSecret ''zenml_my_endpoint_123e4567'', Warning])"
    unfolding prepare_environment_variables_def n
    by (simp add: create_or_update_secret_def get_secret_arn_def delete_secret_def
        action_defs Let_def secrets_manager_unreachable_def example_remote_def
        fresh_endpoint_def example_settings_def example_secrets_def)
next
  have n: "get_secret_name (endpoint_name example_endpoint) (endpoint_id example_endpoint)
             (secret_name_prefix example_settings) = Inr ''zenml_my_endpoint_123e4567''"
    using example_secret_name by (simp add: example_endpoint_def example_settings_def)
  show "prepare_environment_variables secrets_manager_unreachable example_endpoint
       Map.empty example_secrets example_settings
     = (Inl BotoCoreError,
        [UpdateSecret ''zenml_my_endpoint_123e4567'', Warning,
         DescribeSecret ''arn:secret/old''])"
    unfolding prepare_environment_variables_def n
    by (simp add: create_or_update_secret_def get_secret_arn_def delete_secret_def
        action_defs Let_def secrets_manager_unreachable_def example_remote_def
        example_endpoint_def example_settings_def example_secrets_def)
qed

section \<open>Properties of the log generator\<close>

lemma example_log_lines:
  "collected example_remote example_logs example_format_time 5
     \<lparr>gen_endpoint = example_endpoint, gen_follow = False, gen_tail = Some 2,
      gen_state = Created\<rparr>
   = [''[1970-01-01T00:00:02] started'', ''[1970-01-01T00:00:03] ready'']"
  by (simp add: generator_next_def hand_out_def logs_body_def get_app_runner_service_def
      action_defs Let_def example_endpoint_def example_remote_def example_logs_def
      example_format_time_def log_line_def sort_lines_def eval_nat_numeral)

text \<open>
  C8, as stated, fails: the call with \<^verbatim>\<open>follow=True\<close> raises nothing. It returns a
  generator that has not started.
\<close>

theorem follow_call_returns_generator_counterexample:
  "do_get_pipeline_endpoint_logs example_endpoint True None
     = (Inr \<lparr>gen_endpoint = example_endpoint, gen_follow = True, gen_tail = None,
              gen_state = Created\<rparr>, [])
   \<and> fst (do_get_pipeline_endpoint_logs example_endpoint True None)
       \<noteq> Inl NotImplementedError"
  by (simp add: do_get_pipeline_endpoint_logs_def return_def)

text \<open>
  C8, amended. With \<^verbatim>\<open>follow=True\<close> the call returns a generator without raising and
  without any remote call. Advancing that generator for the first time raises
  \<^verbatim>\<open>NotImplementedError\<close>, before any remote call and without handing out a line, and
  leaves the generator finished; so no log line is ever obtained from it, however often
  it is advanced.
\<close>

theorem follow_fails_on_first_advance:
  fixes endpoint :: pipeline_endpoint and tail :: "int option"
  defines "g \<equiv> \<lparr>gen_endpoint = endpoint, gen_follow = True, gen_tail = tail,
                  gen_state = Created\<rparr>"
  shows
  "do_get_pipeline_endpoint_logs endpoint True tail = (Inr g, [])
   \<and> generator_next rem logs format_time g
       = ((Inl NotImplementedError, []), g\<lparr>gen_state := Finished\<rparr>)
   \<and> generator_next rem logs format_time (g\<lparr>gen_state := Finished\<rparr>)
       = ((Inl StopIteration, []), g\<lparr>gen_state := Finished\<rparr>)
   \<and> collected rem logs format_time n g = []"
proof (intro conjI)
  show "do_get_pipeline_endpoint_logs endpoint True tail = (Inr g, [])"
    by (simp add: do_get_pipeline_endpoint_logs_def return_def g_def)
  show first: "generator_next rem logs format_time g
       = ((Inl NotImplementedError, []), g\<lparr>gen_state := Finished\<rparr>)"
    by (simp add: generator_next_def logs_body_def raise_def g_def)
  show "generator_next rem logs format_time (g\<lparr>gen_state := Finished\<rparr>)
       = ((Inl StopIteration, []), g\<lparr>gen_state := Finished\<rparr>)"
    by (simp add: generator_next_def)
  show "collected rem logs format_time n g = []"
    by (cases n) (simp_all add: first)
qed

text \<open>
  For the example endpoint: the first advance of the generator obtained with
  \<^verbatim>\<open>follow=True\<close> raises, and five advances collect nothing, whereas without
  \<^verbatim>\<open>follow\<close> they collect the last two lines.
\<close>

theorem follow_fails_on_first_advance_witness:
  "fst (generator_next example_remote example_logs example_format_time
          \<lparr>gen_endpoint = example_endpoint, gen_follow = True, gen_tail = Some 2,
           gen_state = Created\<rparr>)
     = (Inl NotImplementedError, [])
   \<and> collected example_remote example_logs example_format_time 5
        \<lparr>gen_endpoint = example_endpoint, gen_follow = True, gen_tail = Some 2,
         gen_state = Created\<rparr> = []
   \<and> collected example_remote example_logs example_format_time 5
        \<lparr>gen_endpoint = example_endpoint, gen_follow = False, gen_tail = Some 2,
         gen_state = Created\<rparr>
       = [''[1970-01-01T00:00:02] started'', ''[1970-01-01T00:00:03] ready'']"
proof (intro conjI)
  note t = follow_fails_on_first_advance
      [where endpoint = example_endpoint and tail = "Some 2" and rem = example_remote
         and logs = example_logs and format_time = example_format_time and n = 5]
  show "fst (generator_next example_remote example_logs example_format_time
          \<lparr>gen_endpoint = example_endpoint, gen_follow = True, gen_tail = Some 2,
           gen_state = Created\<rparr>)
     = (Inl NotImplementedError, [])"
    by (simp only: t [THEN conjunct2, THEN conjunct1] fst_conv)
  show "collected example_remote example_logs example_format_time 5
        \<lparr>gen_endpoint = example_endpoint, gen_follow = True, gen_tail = Some 2,
         gen_state = Created\<rparr> = []"
    by (rule t [THEN conjunct2, THEN conjunct2, THEN conjunct2])
  show "collected example_remote example_logs example_format_time 5
        \<lparr>gen_endpoint = example_endpoint, gen_follow = False, gen_tail = Some 2,
         gen_state = Created\<rparr>
       = [''[1970-01-01T00:00:02] started'', ''[1970-01-01T00:00:03] ready'']"
    by (rule example_log_lines)
qed

section \<open>Properties of the returned outputs\<close>










section \<open>Traces of the parts of provisioning\<close>

lemma avoids_return: "avoids P (return x)"
  and avoids_raise: "avoids P (raise e)"
  and avoids_lift: "avoids P (lift r)"
  by (simp_all add: avoids_def return_def raise_def lift_def)

lemma avoids_log_warning: "\<not> P Warning \<Longrightarrow> avoids P log_warning"
  by (simp add: avoids_def log_warning_def)

lemma avoids_remote_call: "\<not> P ev \<Longrightarrow> avoids P (remote_call ev r)"
  by (simp add: avoids_def remote_call_def)

lemma avoids_and_then:
  "avoids P m \<Longrightarrow> (\<And>x. fst m = Inr x \<Longrightarrow> avoids P (f x)) \<Longrightarrow> avoids P (and_then m f)"
  by (cases m; cases "fst m") (auto simp: avoids_def and_then_def split: prod.splits)

lemma avoids_try_except:
  "avoids P m \<Longrightarrow> (\<And>e. fst m = Inl e \<Longrightarrow> avoids P (h e)) \<Longrightarrow> avoids P (try_except m h)"
  by (cases m; cases "fst m") (auto simp: avoids_def try_except_def split: prod.splits)

lemma avoids_mono: "avoids Q m \<Longrightarrow> (\<And>ev. P ev \<Longrightarrow> Q ev) \<Longrightarrow> avoids P m"
  by (auto simp: avoids_def)

lemma reaches_and_then:
  "(\<And>x. fst m = Inr x \<Longrightarrow> reaches ev (f x)) \<Longrightarrow> reaches ev (and_then m f)"
  by (cases m; cases "fst m") (auto simp: reaches_def and_then_def split: prod.splits)

lemma reaches_first: "ev \<in> set (snd m) \<Longrightarrow> reaches ev (and_then m f)"
  by (cases m; cases "fst m") (auto simp: reaches_def and_then_def split: prod.splits)

lemma reaches_try_except:
  assumes "reaches ev m" and "\<And>e. isl (fst (h e))"
  shows "reaches ev (try_except m h)"
proof (cases m)
  case (Pair r t)
  show ?thesis
  proof (cases r)
    case (Inl e)
    obtain r' t' where h: "h e = (r', t')" by (cases "h e")
    with assms(2) [of e] have "isl r'" by simp
    then show ?thesis
      using Pair Inl h by (auto simp: reaches_def try_except_def)
  next
    case (Inr x)
    then show ?thesis
      using Pair assms(1) by (simp add: reaches_def try_except_def)
  qed
qed

lemma reaches_failed: "fst m = Inl e \<Longrightarrow> reaches ev m"
  by (simp add: reaches_def)

lemma avoids_get_app_runner_service:
  "avoids on_service (get_app_runner_service rem endpoint)"
  unfolding get_app_runner_service_def Let_def
  by (auto intro!: avoids_return avoids_raise avoids_try_except avoids_and_then
      avoids_remote_call split: error.splits)

lemma avoids_create_or_update_secret:
  "avoids on_service (create_or_update_secret rem secret_name secret_value endpoint)"
  unfolding create_or_update_secret_def
  by (auto intro!: avoids_return avoids_raise avoids_try_except avoids_and_then
      avoids_remote_call split: error.splits)

lemma avoids_get_secret_arn: "avoids on_service (get_secret_arn rem endpoint)"
  unfolding get_secret_arn_def Let_def
  by (auto intro!: avoids_return avoids_raise avoids_try_except avoids_and_then
      avoids_remote_call split: error.splits)

lemma avoids_delete_secret: "avoids on_service (delete_secret rem arn)"
  unfolding delete_secret_def
  by (auto intro!: avoids_return avoids_raise avoids_try_except avoids_and_then
      avoids_remote_call split: error.splits)

lemma avoids_cleanup_endpoint_secrets:
  "avoids on_service (cleanup_endpoint_secrets rem endpoint)"
  unfolding cleanup_endpoint_secrets_def
  by (auto intro!: avoids_return avoids_and_then avoids_get_secret_arn avoids_delete_secret)

lemma avoids_cleanup_endpoint_auto_scaling_config:
  "avoids on_service (cleanup_endpoint_auto_scaling_config rem endpoint)"
  unfolding cleanup_endpoint_auto_scaling_config_def Let_def
  by (auto intro!: avoids_return avoids_raise avoids_try_except avoids_and_then
      avoids_remote_call avoids_log_warning split: error.splits)

lemma avoids_create_or_update_auto_scaling_config:
  "avoids on_service
     (create_or_update_auto_scaling_config rem config_name min_size max_size max_conc endpoint)"
  unfolding create_or_update_auto_scaling_config_def Let_def
  by (auto intro!: avoids_return avoids_raise avoids_try_except avoids_and_then
      avoids_remote_call split: error.splits option.splits prod.splits)

lemma avoids_prepare_environment_variables:
  "avoids on_service
     (prepare_environment_variables rem endpoint environment secrets settings)"
  unfolding prepare_environment_variables_def Let_def
  by (auto intro!: avoids_return avoids_raise avoids_lift avoids_try_except avoids_and_then
      avoids_log_warning avoids_create_or_update_secret avoids_get_secret_arn
      avoids_delete_secret split: prod.splits)

lemmas avoids_parts =
  avoids_mono [OF avoids_get_app_runner_service]
  avoids_mono [OF avoids_prepare_environment_variables]
  avoids_mono [OF avoids_create_or_update_auto_scaling_config]

lemmas avoids_steps =
  avoids_return avoids_raise avoids_lift avoids_log_warning avoids_remote_call
  avoids_and_then avoids_try_except

lemma found_service:
  assumes "service_arn (endpoint_metadata endpoint) = Some arn" and "arn \<noteq> []"
    and "client_describe_service rem arn = Inr svc"
  shows "get_app_runner_service rem endpoint = (Inr (Some svc), [DescribeService arn])"
  using assms by (simp add: get_app_runner_service_def action_defs Let_def)

lemma fst_steps:
  "fst (return x) = Inr x" "fst (raise e) = Inl e" "fst (lift r) = r"
  "fst log_warning = Inr ()" "fst (remote_call ev r) = r"
  by (simp_all add: action_defs)

lemma provision_update_avoids:
  assumes "service_arn (endpoint_metadata endpoint) = Some arn" and "arn \<noteq> []"
    and "client_describe_service rem arn = Inr svc"
    and "service_truthy (Some svc)"
    and "\<not> requires_service_replacement svc (deployment_settings dep)"
  shows "avoids (\<lambda>ev. (\<exists>a. ev = DeleteService a) \<or> (\<exists>n. ev = CreateService n))
           (do_provision_pipeline_endpoint rem poll json_loads deployer_error_subclass rgn
              endpoint (Some dep) environment secrets timeout)"
proof -
  have found: "found = Some svc" if "fst (get_app_runner_service rem endpoint) = Inr found"
    for found
    using that found_service [OF assms(1,2,3)] by simp
  show ?thesis
    unfolding do_provision_pipeline_endpoint_def
    using assms(4,5)
    by (auto simp: Let_def subscript_def fst_steps split: prod.splits option.splits
        intro!: avoids_steps avoids_parts dest!: found)
qed

lemma reaches_and_then_left: "reaches ev m \<Longrightarrow> reaches ev (and_then m f)"
  by (cases m; cases "fst m") (auto simp: reaches_def and_then_def split: prod.splits)

lemma provision_update_reaches:
  assumes "service_arn (endpoint_metadata endpoint) = Some arn" and "arn \<noteq> []"
    and "client_describe_service rem arn = Inr svc"
    and "service_truthy (Some svc)"
    and "\<not> requires_service_replacement svc (deployment_settings dep)"
    and "ServiceArn svc = Some target"
  shows "reaches (UpdateService target)
           (do_provision_pipeline_endpoint rem poll json_loads deployer_error_subclass rgn
              endpoint (Some dep) environment secrets timeout)"
proof -
  have found: "found = Some svc" if "fst (get_app_runner_service rem endpoint) = Inr found"
    for found
    using that found_service [OF assms(1,2,3)] by simp
  show ?thesis
    unfolding do_provision_pipeline_endpoint_def
    apply (simp only: option.case Let_def split_def)
    apply (intro reaches_and_then)
    apply (rule reaches_try_except)
     apply (rule reaches_and_then_left)
     apply (drule found)
     apply (clarsimp simp: assms(4,5,6) fst_steps subscript_def)
     apply (rule reaches_and_then)
     apply (rule reaches_first)
     apply (simp add: fst_steps remote_call_def)
    apply (simp add: fst_steps)
    done
qed

lemma avoids_do_deprovision_pipeline_endpoint:
  "avoids (\<lambda>ev. (\<exists>a. ev = UpdateService a) \<or> (\<exists>a. ev = TagResource a)
              \<or> (\<exists>n. ev = CreateService n))
     (do_deprovision_pipeline_endpoint rem poll endpoint timeout)"
  unfolding do_deprovision_pipeline_endpoint_def Let_def
  by (auto intro!: avoids_steps avoids_mono [OF avoids_get_app_runner_service]
      avoids_mono [OF avoids_cleanup_endpoint_secrets]
      avoids_mono [OF avoids_cleanup_endpoint_auto_scaling_config]
      split: error.splits)

lemma provision_replace_avoids:
  assumes "service_arn (endpoint_metadata endpoint) = Some arn" and "arn \<noteq> []"
    and "client_describe_service rem arn = Inr svc"
    and "service_truthy (Some svc)"
    and "requires_service_replacement svc (deployment_settings dep)"
  shows "avoids (\<lambda>ev. \<exists>a. ev = UpdateService a)
           (do_provision_pipeline_endpoint rem poll json_loads deployer_error_subclass rgn
              endpoint (Some dep) environment secrets timeout)"
proof -
  have found: "found = Some svc" if "fst (get_app_runner_service rem endpoint) = Inr found"
    for found
    using that found_service [OF assms(1,2,3)] by simp
  have none: "existing = None"
    if "fst (and_then m (\<lambda>u. return None)) = Inr existing" for m :: "unit action" and existing :: "app_runner_service option"
    using that by (cases m; cases "fst m") (auto simp: and_then_def return_def)
  show ?thesis
    unfolding do_provision_pipeline_endpoint_def
    using assms(4,5)
    by (auto simp: Let_def subscript_def fst_steps service_truthy_def
        split: prod.splits option.splits
        intro!: avoids_steps avoids_parts
          avoids_mono [OF avoids_do_deprovision_pipeline_endpoint]
        dest!: found none)
qed

lemma provision_replace_reaches:
  assumes "service_arn (endpoint_metadata endpoint) = Some arn" and "arn \<noteq> []"
    and "client_describe_service rem arn = Inr svc"
    and "service_truthy (Some svc)"
    and "requires_service_replacement svc (deployment_settings dep)"
    and "get_service_name (endpoint_name endpoint) (endpoint_id endpoint)
           (service_name_prefix (deployment_settings dep)) = Inr name"
  shows "reaches (CreateService name)
           (do_provision_pipeline_endpoint rem poll json_loads deployer_error_subclass rgn
              endpoint (Some dep) environment secrets timeout)"
proof -
  have found: "found = Some svc" if "fst (get_app_runner_service rem endpoint) = Inr found"
    for found
    using that found_service [OF assms(1,2,3)] by simp
  have none: "existing = None"
    if "fst (and_then m (\<lambda>u. return None)) = Inr existing" for m :: "unit action" and existing :: "app_runner_service option"
    using that by (cases m; cases "fst m") (auto simp: and_then_def return_def)
  show ?thesis
    unfolding do_provision_pipeline_endpoint_def
    apply (simp only: option.case Let_def split_def)
    apply (intro reaches_and_then)
    apply (rule reaches_try_except)
     apply (rule reaches_and_then_left)
     apply (drule found)
     apply (clarsimp simp: assms(4,5,6) fst_steps)
     apply (drule none)
     apply (simp add: service_truthy_def reaches_def remote_call_def)
    apply (simp add: fst_steps)
    done
qed

lemma provision_update_fails_without_arn:
  assumes "service_arn (endpoint_metadata endpoint) = Some arn" and "arn \<noteq> []"
    and "client_describe_service rem arn = Inr svc"
    and "service_truthy (Some svc)"
    and "\<not> requires_service_replacement svc (deployment_settings dep)"
    and "ServiceArn svc = None"
  shows "reaches ev
           (do_provision_pipeline_endpoint rem poll json_loads deployer_error_subclass rgn
              endpoint (Some dep) environment secrets timeout)"
proof -
  have found: "found = Some svc" if "fst (get_app_runner_service rem endpoint) = Inr found"
    for found
    using that found_service [OF assms(1,2,3)] by simp
  show ?thesis
    unfolding do_provision_pipeline_endpoint_def
    apply (simp only: option.case Let_def split_def)
    apply (intro reaches_and_then)
    apply (rule reaches_try_except)
     apply (rule reaches_and_then_left)
     apply (drule found)
     apply (clarsimp simp: assms(4,5,6) fst_steps subscript_def)
     apply (rule reaches_and_then_left)
     apply (rule reaches_failed [of _ KeyError])
     apply (simp add: fst_steps)
    apply (simp add: fst_steps)
    done
qed

section \<open>Properties of the replacement decision\<close>

text \<open>
  C1. Of the existing service the decision reads three values: the public-access flag
  under \<^verbatim>\<open>NetworkConfiguration.IngressConfiguration\<close>, the VPC connector under
  \<^verbatim>\<open>NetworkConfiguration.EgressConfiguration\<close> and the key under
  \<^verbatim>\<open>EncryptionConfiguration\<close>, each absent when a dictionary on its path is.
  The decision is true exactly when the flag differs from the settings' visibility, or
  the presence of a (non-empty) connector differs from the presence of a (non-empty) VPC
  configuration in the settings, or the key differs from the settings' key. Hence it is
  false whenever none of the three differs, whatever else does: replacing the name, ARN,
  URL, status, image reference and auto-scaling summary of the service and the remaining
  settings leaves the decision unchanged. Flipping only the visibility of settings that
  needed no replacement makes the decision true.

  In provisioning, let the endpoint record the non-empty ARN of a service that the remote
  side describes as \<open>found\<close>, not the empty dictionary. If the decision for \<open>found\<close> and
  the deployment's settings is false, the run issues no \<^verbatim>\<open>delete_service\<close> and no
  \<^verbatim>\<open>create_service\<close> call, whatever happens on the way, and if it returns it has
  issued \<^verbatim>\<open>update_service\<close> for the ARN of \<open>found\<close>: the in-place update path. If
  the decision is true, the run issues no \<^verbatim>\<open>update_service\<close> call, and if it returns
  it has issued \<^verbatim>\<open>create_service\<close>.
\<close>

theorem replacement_decision:
  fixes existing_service found :: app_runner_service and settings :: aws_deployer_settings
    and dep :: pipeline_deployment and rem :: remote and endpoint :: pipeline_endpoint
    and poll :: "pipeline_endpoint \<Rightarrow> pipeline_endpoint_status \<Rightarrow> int \<Rightarrow> error + operational_state"
    and json_loads :: "string \<Rightarrow> error + unit" and deployer_error_subclass :: "error \<Rightarrow> bool"
    and rgn arn :: string and environment secrets :: "string \<rightharpoonup> string"
    and timeout :: int
  defines "visibility \<equiv>
      (case NetworkConfiguration existing_service of
         None \<Rightarrow> None
       | Some n \<Rightarrow> (case IngressConfiguration n of
                      None \<Rightarrow> None
                    | Some i \<Rightarrow> IsPubliclyAccessible i))"
    and "connector \<equiv>
      (case NetworkConfiguration existing_service of
         None \<Rightarrow> None
       | Some n \<Rightarrow> (case EgressConfiguration n of
                      None \<Rightarrow> None
                    | Some e \<Rightarrow> VpcConnectorArn e))"
    and "key \<equiv>
      (case EncryptionConfiguration existing_service of
         None \<Rightarrow> None
       | Some e \<Rightarrow> KmsKey e)"
    and "run \<equiv> do_provision_pipeline_endpoint rem poll json_loads deployer_error_subclass
                  rgn endpoint (Some dep) environment secrets timeout"
    and "described \<equiv>
           service_arn (endpoint_metadata endpoint) = Some arn \<and> arn \<noteq> []
           \<and> client_describe_service rem arn = Inr found
           \<and> found \<noteq> \<lparr>ServiceName = None, ServiceArn = None, ServiceUrl = None,
                        Status = None, ImageIdentifier = None,
                        AutoScalingConfigurationSummary = None,
                        NetworkConfiguration = None, EncryptionConfiguration = None\<rparr>"
  shows
  "requires_service_replacement existing_service settings =
     (visibility \<noteq> Some (is_publicly_accessible settings)
      \<or> (connector \<noteq> None \<and> connector \<noteq> Some [])
          \<noteq> (ingress_vpc_configuration settings \<noteq> None
             \<and> ingress_vpc_configuration settings \<noteq> Some [])
      \<or> key \<noteq> encryption_kms_key settings)
   \<and> requires_service_replacement
         (existing_service\<lparr>ServiceName := new_name, ServiceArn := new_arn,
            ServiceUrl := new_url, Status := new_status, ImageIdentifier := new_image,
            AutoScalingConfigurationSummary := new_summary\<rparr>)
         (settings\<lparr>use_secrets_manager := new_flag, secret_name_prefix := new_prefix,
            environment_variables := new_environment\<rparr>)
       = requires_service_replacement existing_service settings
   \<and> (\<not> requires_service_replacement existing_service settings \<longrightarrow>
        requires_service_replacement existing_service
          (settings\<lparr>is_publicly_accessible := \<not> is_publicly_accessible settings\<rparr>))
   \<and> (described \<and> \<not> requires_service_replacement found (deployment_settings dep) \<longrightarrow>
        DeleteService a \<notin> set (snd run) \<and> CreateService name \<notin> set (snd run)
        \<and> (fst run = Inr state \<longrightarrow>
             (\<exists>target. ServiceArn found = Some target
                \<and> UpdateService target \<in> set (snd run))))
   \<and> (described \<and> requires_service_replacement found (deployment_settings dep) \<longrightarrow>
        UpdateService a \<notin> set (snd run)
        \<and> (fst run = Inr state \<longrightarrow> (\<exists>n. CreateService n \<in> set (snd run))))"
proof -
  have w: "truthy x = (x \<noteq> None \<and> x \<noteq> Some [])" for x
    by (cases x) simp_all
  have v: "current_public_access svc =
      (case NetworkConfiguration svc of
         None \<Rightarrow> None
       | Some n \<Rightarrow> (case IngressConfiguration n of
                      None \<Rightarrow> None
                    | Some i \<Rightarrow> IsPubliclyAccessible i))" for svc
    by (simp add: current_public_access_def split: option.splits)
  have c: "has_current_vpc svc =
      ((case NetworkConfiguration svc of
          None \<Rightarrow> None
        | Some n \<Rightarrow> (case EgressConfiguration n of
                       None \<Rightarrow> None
                     | Some e \<Rightarrow> VpcConnectorArn e)) \<notin> {None, Some []})" for svc
    by (auto simp: has_current_vpc_def w split: option.splits)
  have k: "current_kms_key svc =
      (case EncryptionConfiguration svc of
         None \<Rightarrow> None
       | Some e \<Rightarrow> KmsKey e)" for svc
    by (simp add: current_kms_key_def split: option.splits)
  have d: "requires_service_replacement svc stg =
     (current_public_access svc \<noteq> Some (is_publicly_accessible stg)
      \<or> has_current_vpc svc \<noteq> truthy (ingress_vpc_configuration stg)
      \<or> current_kms_key svc \<noteq> encryption_kms_key stg)" for svc stg
    by (simp add: requires_service_replacement_def)
  have update: "DeleteService a \<notin> set (snd run) \<and> CreateService name \<notin> set (snd run)
        \<and> (fst run = Inr state \<longrightarrow>
             (\<exists>target. ServiceArn found = Some target
                \<and> UpdateService target \<in> set (snd run)))"
    if h: "described" and n: "\<not> requires_service_replacement found (deployment_settings dep)"
  proof -
    from h have a: "service_arn (endpoint_metadata endpoint) = Some arn" "arn \<noteq> []"
      "client_describe_service rem arn = Inr found"
      and t: "service_truthy (Some found)"
      by (simp_all add: described_def service_truthy_def)
    note av = provision_update_avoids [OF a t n, of poll json_loads deployer_error_subclass rgn
        environment secrets timeout, folded run_def]
    have "DeleteService a \<notin> set (snd run)" "CreateService name \<notin> set (snd run)"
      using av by (auto simp: avoids_def)
    moreover have "\<exists>target. ServiceArn found = Some target
                \<and> UpdateService target \<in> set (snd run)"
      if s: "fst run = Inr state"
    proof (cases "ServiceArn found")
      case None
      from provision_update_fails_without_arn [OF a t n None, of "CreateService name" poll
          json_loads deployer_error_subclass rgn environment secrets timeout, folded run_def]
        s av
      show ?thesis by (auto simp: reaches_def avoids_def)
    next
      case (Some target)
      from provision_update_reaches [OF a t n Some, of poll json_loads
          deployer_error_subclass rgn environment secrets timeout, folded run_def] s
      show ?thesis using Some by (simp add: reaches_def)
    qed
    ultimately show ?thesis by simp
  qed
  have replace: "UpdateService a \<notin> set (snd run)
        \<and> (fst run = Inr state \<longrightarrow> (\<exists>n. CreateService n \<in> set (snd run)))"
    if h: "described" and r: "requires_service_replacement found (deployment_settings dep)"
  proof -
    from h have a: "service_arn (endpoint_metadata endpoint) = Some arn" "arn \<noteq> []"
      "client_describe_service rem arn = Inr found"
      and t: "service_truthy (Some found)"
      by (simp_all add: described_def service_truthy_def)
    note av = provision_replace_avoids [OF a t r, of poll json_loads deployer_error_subclass
        rgn environment secrets timeout, folded run_def]
    have "UpdateService a \<notin> set (snd run)"
      using av by (auto simp: avoids_def)
    moreover have "\<exists>n. CreateService n \<in> set (snd run)" if s: "fst run = Inr state"
    proof (cases "get_service_name (endpoint_name endpoint) (endpoint_id endpoint)
                    (service_name_prefix (deployment_settings dep))")
      case (Inl e)
      then have "fst run = Inl e"
        by (simp add: run_def do_provision_pipeline_endpoint_def Let_def split_def
            and_then_def lift_def)
      with s show ?thesis by simp
    next
      case (Inr n)
      from provision_replace_reaches [OF a t r Inr, of poll json_loads
          deployer_error_subclass rgn environment secrets timeout, folded run_def] s
      show ?thesis by (auto simp: reaches_def)
    qed
    ultimately show ?thesis by simp
  qed
  show ?thesis
  proof (intro conjI impI)
    show "requires_service_replacement existing_service settings =
     (visibility \<noteq> Some (is_publicly_accessible settings)
      \<or> (connector \<noteq> None \<and> connector \<noteq> Some [])
          \<noteq> (ingress_vpc_configuration settings \<noteq> None
             \<and> ingress_vpc_configuration settings \<noteq> Some [])
      \<or> key \<noteq> encryption_kms_key settings)"
      unfolding d v c k w visibility_def connector_def key_def by simp
  next
    show "requires_service_replacement
         (existing_service\<lparr>ServiceName := new_name, ServiceArn := new_arn,
            ServiceUrl := new_url, Status := new_status, ImageIdentifier := new_image,
            AutoScalingConfigurationSummary := new_summary\<rparr>)
         (settings\<lparr>use_secrets_manager := new_flag, secret_name_prefix := new_prefix,
            environment_variables := new_environment\<rparr>)
       = requires_service_replacement existing_service settings"
      unfolding d v c k by simp
  next
    assume "\<not> requires_service_replacement existing_service settings"
    then have "current_public_access existing_service = Some (is_publicly_accessible settings)"
      by (simp add: d)
    then show "requires_service_replacement existing_service
          (settings\<lparr>is_publicly_accessible := \<not> is_publicly_accessible settings\<rparr>)"
      by (simp add: d)
  next
    assume "described \<and> \<not> requires_service_replacement found (deployment_settings dep)"
    with update show "DeleteService a \<notin> set (snd run)" by blast
  next
    assume "described \<and> \<not> requires_service_replacement found (deployment_settings dep)"
    with update show "CreateService name \<notin> set (snd run)" by blast
  next
    assume "described \<and> \<not> requires_service_replacement found (deployment_settings dep)"
      and "fst run = Inr state"
    with update show "\<exists>target. ServiceArn found = Some target
                \<and> UpdateService target \<in> set (snd run)" by blast
  next
    assume "described \<and> requires_service_replacement found (deployment_settings dep)"
    with replace show "UpdateService a \<notin> set (snd run)" by blast
  next
    assume "described \<and> requires_service_replacement found (deployment_settings dep)"
      and "fst run = Inr state"
    with replace show "\<exists>n. CreateService n \<in> set (snd run)" by blast
  qed
qed

text \<open>
  Provisioning the example endpoint with the public example settings and a new image,
  without environment variables or secrets: the service found needs no replacement, and
  the run looks the service and the auto-scaling configuration up, updates the service in
  place and tags it.
\<close>

lemma example_update_run:
  "do_provision_pipeline_endpoint example_remote (\<lambda>e s t. Inr example_absent_state)
       (\<lambda>s. Inr ()) (\<lambda>e. False) ''eu-central-1'' example_endpoint (Some example_deployment)
       Map.empty Map.empty 300
     = (Inr (get_service_operational_state
               (example_service\<lparr>ServiceArn := Some ''arn:service'',
                                 Status := Some ''OPERATION_IN_PROGRESS''\<rparr>)
               ''eu-central-1'' None),
        [DescribeService ''arn:service'',
         DescribeAutoScalingConfiguration ''arn:autoscaling/1'',
         UpdateService ''arn:service'', TagResource ''arn:service''])"
proof -
  have name: "get_service_name (endpoint_name example_endpoint) (endpoint_id example_endpoint)
                (service_name_prefix (deployment_settings example_deployment))
              = Inr ''zenml-my-endpoint-123e4567''"
    by (simp add: example_endpoint_def example_deployment_def example_settings_def
        get_service_name_def sanitize_app_runner_service_name_def Let_def
        name_suffix_valid_def name_char_def isalnum_def in_range_def hyphenate_def strip_def
        lstrip_def rstrip_def slice_to_def)
  have config: "get_auto_scaling_config_name (endpoint_name example_endpoint)
                  (endpoint_id example_endpoint) = Inr ''zenml-my-endpoint-123e4567''"
    by (simp add: example_endpoint_def get_auto_scaling_config_name_def
        sanitize_auto_scaling_config_name_def Let_def name_char_def isalnum_def in_range_def
        hyphenate_def rstrip_def)
  have scaling: "convert_scaling_settings_to_aws_format
                   (deployment_resource_settings example_deployment) = (1, 25, 100)"
    by (simp add: convert_scaling_settings_to_aws_format_def example_resource_settings_def
        example_deployment_def Let_def AWS_APP_RUNNER_MAX_SIZE_def
        AWS_APP_RUNNER_MAX_CONCURRENCY_def)
  have found: "get_app_runner_service example_remote example_endpoint
                 = (Inr (Some example_service), [DescribeService ''arn:service''])"
    by (rule found_service) (simp_all add: example_endpoint_def example_remote_def)
  have keep: "service_truthy (Some example_service)"
    "\<not> requires_service_replacement example_service (deployment_settings example_deployment)"
    by (simp_all add: service_truthy_def example_service_def example_deployment_def
        example_settings_def requires_service_replacement_def current_public_access_def
        has_current_vpc_def current_kms_key_def)
  have env: "prepare_environment_variables example_remote example_endpoint Map.empty Map.empty
               (deployment_settings example_deployment)
             = (Inr (Map.empty, Map.empty, None), [])"
    by (simp add: prepare_environment_variables_def example_deployment_def
        example_settings_def return_def)
  have scale: "create_or_update_auto_scaling_config example_remote
                 ''zenml-my-endpoint-123e4567'' 1 25 100 example_endpoint
               = (Inr ''arn:autoscaling/1'',
                  [DescribeAutoScalingConfiguration ''arn:autoscaling/1''])"
    by (simp add: create_or_update_auto_scaling_config_cases example_endpoint_def
        example_remote_def)
  have settings: "truthy (access_role_arn (deployment_settings example_deployment)) = False"
    "truthy (instance_role_arn (deployment_settings example_deployment)) = False"
    "truthy (ingress_vpc_configuration (deployment_settings example_deployment)) = False"
    "contains (deployment_image example_deployment) ''public.ecr.aws'' = False"
    "contains (deployment_image example_deployment) ''amazonaws.com'' = False"
    by (simp_all add: example_deployment_def example_settings_def contains_def)
  have update: "client_update_service example_remote ''arn:service''
                  = Inr (example_service\<lparr>ServiceArn := Some ''arn:service'',
                                          Status := Some ''OPERATION_IN_PROGRESS''\<rparr>)"
    "client_tag_resource example_remote ''arn:service'' = Inr ()"
    "ServiceArn example_service = Some ''arn:service''"
    by (simp_all add: example_remote_def example_service_def)
  have and_then_value: "and_then (Inr x, t) f = (case f x of (r, t') \<Rightarrow> (r, t @ t'))"
    for x :: 'a and t and f :: "'a \<Rightarrow> 'b action"
    by (simp add: and_then_def)
  have steps: "return x = (Inr x, [])" "lift (Inr x) = (Inr x, [])"
    "remote_call ev (Inr x) = (Inr x, [ev])" "subscript (Some x) = (Inr x, [])"
    "try_except (Inr x, t) h = (Inr x, t)" for x :: 'a and ev t h
    by (simp_all add: action_defs subscript_def)
  show ?thesis
    unfolding do_provision_pipeline_endpoint_def option.case Let_def name scaling
    by (simp add: config found keep env scale settings update and_then_value steps)
qed

text \<open>
  At the private service with a VPC connector and a key, and settings asking for the
  same: no replacement, also after a change of the image reference alone; dropping the
  VPC configuration from the settings, asking for another key or asking for a public
  service each give replacement. Provisioning the example endpoint, whose service is
  public: with the public settings and a new image the run neither deletes nor creates a
  service and updates the one found; with the private settings it does not update it.
\<close>

theorem replacement_decision_witness:
  "\<not> requires_service_replacement private_service private_settings
   \<and> \<not> requires_service_replacement
        (private_service\<lparr>ServiceName := Some ''zenml-endpoint'',
           ServiceArn := Some ''arn:service'', ServiceUrl := Some ''abc.awsapprunner.com'',
           Status := Some ''RUNNING'', ImageIdentifier := Some ''registry/image:2'',
           AutoScalingConfigurationSummary := None\<rparr>)
        (private_settings\<lparr>use_secrets_manager := True, secret_name_prefix := ''zenml-'',
           environment_variables := Map.empty\<rparr>)
   \<and> requires_service_replacement private_service
        (private_settings\<lparr>ingress_vpc_configuration := None\<rparr>)
   \<and> requires_service_replacement private_service
        (private_settings\<lparr>encryption_kms_key := Some ''arn:key-2''\<rparr>)
   \<and> requires_service_replacement private_service
        (private_settings\<lparr>is_publicly_accessible := True\<rparr>)
   \<and> DeleteService ''arn:service''
        \<notin> set (snd (do_provision_pipeline_endpoint example_remote
                        (\<lambda>e s t. Inr example_absent_state) (\<lambda>s. Inr ()) (\<lambda>e. False)
                        ''eu-central-1'' example_endpoint (Some example_deployment)
                        Map.empty Map.empty 300))
   \<and> CreateService ''zenml-my-endpoint-123e4567''
        \<notin> set (snd (do_provision_pipeline_endpoint example_remote
                        (\<lambda>e s t. Inr example_absent_state) (\<lambda>s. Inr ()) (\<lambda>e. False)
                        ''eu-central-1'' example_endpoint (Some example_deployment)
                        Map.empty Map.empty 300))
   \<and> UpdateService ''arn:service''
        \<in> set (snd (do_provision_pipeline_endpoint example_remote
                        (\<lambda>e s t. Inr example_absent_state) (\<lambda>s. Inr ()) (\<lambda>e. False)
                        ''eu-central-1'' example_endpoint (Some example_deployment)
                        Map.empty Map.empty 300))
   \<and> UpdateService ''arn:service''
        \<notin> set (snd (do_provision_pipeline_endpoint example_remote
                        (\<lambda>e s t. Inr example_absent_state) (\<lambda>s. Inr ()) (\<lambda>e. False)
                        ''eu-central-1'' example_endpoint (Some private_deployment)
                        Map.empty Map.empty 300))"
proof -
  note ex = private_service_def private_settings_def
  have a: "\<not> requires_service_replacement private_service private_settings"
    using replacement_decision [of private_service private_settings, THEN conjunct1]
    by (simp add: ex)
  note t = replacement_decision
      [where existing_service = private_service and settings = private_settings
         and new_name = "Some ''zenml-endpoint''" and new_arn = "Some ''arn:service''"
         and new_url = "Some ''abc.awsapprunner.com''" and new_status = "Some ''RUNNING''"
         and new_image = "Some ''registry/image:2''" and new_summary = None
         and new_flag = True and new_prefix = "''zenml-''" and new_environment = Map.empty,
       THEN conjunct2, THEN conjunct1]
  have b: "\<not> requires_service_replacement
        (private_service\<lparr>ServiceName := Some ''zenml-endpoint'',
           ServiceArn := Some ''arn:service'', ServiceUrl := Some ''abc.awsapprunner.com'',
           Status := Some ''RUNNING'', ImageIdentifier := Some ''registry/image:2'',
           AutoScalingConfigurationSummary := None\<rparr>)
        (private_settings\<lparr>use_secrets_manager := True, secret_name_prefix := ''zenml-'',
           environment_variables := Map.empty\<rparr>)"
    using a t by simp
  have c: "requires_service_replacement private_service
        (private_settings\<lparr>ingress_vpc_configuration := None\<rparr>)"
    using replacement_decision
        [of private_service "private_settings\<lparr>ingress_vpc_configuration := None\<rparr>",
         THEN conjunct1]
    by (simp add: ex)
  have d: "requires_service_replacement private_service
        (private_settings\<lparr>encryption_kms_key := Some ''arn:key-2''\<rparr>)"
    using replacement_decision
        [of private_service "private_settings\<lparr>encryption_kms_key := Some ''arn:key-2''\<rparr>",
         THEN conjunct1]
    by (simp add: ex)
  have e: "requires_service_replacement private_service
        (private_settings\<lparr>is_publicly_accessible := True\<rparr>)"
    using a replacement_decision [of private_service private_settings,
        THEN conjunct2, THEN conjunct2, THEN conjunct1]
    by (simp add: private_settings_def)
  let ?run = "do_provision_pipeline_endpoint example_remote
                (\<lambda>e s t. Inr example_absent_state) (\<lambda>s. Inr ()) (\<lambda>e. False)
                ''eu-central-1'' example_endpoint (Some example_deployment)
                Map.empty Map.empty 300"
  let ?state = "get_service_operational_state
                  (example_service\<lparr>ServiceArn := Some ''arn:service'',
                                    Status := Some ''OPERATION_IN_PROGRESS''\<rparr>)
                  ''eu-central-1'' None"
  have described: "service_arn (endpoint_metadata example_endpoint) = Some ''arn:service''
           \<and> ''arn:service'' \<noteq> []
           \<and> client_describe_service example_remote ''arn:service'' = Inr example_service
           \<and> example_service \<noteq> \<lparr>ServiceName = None, ServiceArn = None, ServiceUrl = None,
                        Status = None, ImageIdentifier = None,
                        AutoScalingConfigurationSummary = None,
                        NetworkConfiguration = None, EncryptionConfiguration = None\<rparr>"
    by (simp add: example_endpoint_def example_remote_def example_service_def)
  have keep: "\<not> requires_service_replacement example_service
                  (deployment_settings example_deployment)"
    using replacement_decision
        [of example_service "deployment_settings example_deployment", THEN conjunct1]
    by (simp add: example_service_def example_deployment_def example_settings_def)
  have change: "requires_service_replacement example_service
                  (deployment_settings private_deployment)"
    using replacement_decision
        [of example_service "deployment_settings private_deployment", THEN conjunct1]
    by (simp add: example_service_def private_deployment_def example_deployment_def
        private_settings_def)
  note u = replacement_decision
      [where found = example_service and dep = example_deployment and rem = example_remote
         and endpoint = example_endpoint and poll = "\<lambda>e s t. Inr example_absent_state"
         and json_loads = "\<lambda>s. Inr ()" and deployer_error_subclass = "\<lambda>e. False"
         and rgn = "''eu-central-1''" and arn = "''arn:service''"
         and environment = Map.empty and secrets = Map.empty and timeout = 300
         and a = "''arn:service''" and name = "''zenml-my-endpoint-123e4567''"
         and state = "?state",
       THEN conjunct2, THEN conjunct2, THEN conjunct2, THEN conjunct1, THEN mp,
       OF conjI [OF described keep]]
  have s: "fst ?run = Inr ?state"
    by (simp add: example_update_run)
  have "ServiceArn example_service = Some ''arn:service''"
    by (simp add: example_service_def)
  with u [THEN conjunct2, THEN conjunct2, THEN mp, OF s]
  have f: "UpdateService ''arn:service'' \<in> set (snd ?run)"
    by auto
  note r = replacement_decision
      [where found = example_service and dep = private_deployment and rem = example_remote
         and endpoint = example_endpoint and poll = "\<lambda>e s t. Inr example_absent_state"
         and json_loads = "\<lambda>s. Inr ()" and deployer_error_subclass = "\<lambda>e. False"
         and rgn = "''eu-central-1''" and arn = "''arn:service''"
         and environment = Map.empty and secrets = Map.empty and timeout = 300
         and a = "''arn:service''",
       THEN conjunct2, THEN conjunct2, THEN conjunct2, THEN conjunct2, THEN mp,
       OF conjI [OF described change]]
  from a b c d e u [THEN conjunct1] u [THEN conjunct2, THEN conjunct1] f r [THEN conjunct1]
  show ?thesis by (intro conjI)
qed

end
